theory Spec2Isabelle
  imports Complex_Main
begin

section \<open>Numbers, strings and errors\<close>

text \<open>
  A JavaScript \<open>number\<close> is modelled as a \<open>real\<close>. All thresholds the code compares
  against are decimal literals, read here as the rationals they denote. In the content
  analysis and the quality decision the special value NaN is not represented: every
  comparison with NaN is false, so in the decision functions a NaN field behaves like a
  value for which no branch fires.
  An exception is a value \<open>Inl msg\<close> of the sum type, \<open>msg\<close> being the message of the
  \<open>Error\<close> object.
\<close>

type_synonym number = real

type_synonym 'a result = "string + 'a"

text \<open>
  The validator computes its metrics by arithmetic on what the codec reports, and there
  NaN is a value of its own: the codec reports the standard deviation NaN for an image of
  a single pixel, and \<open>0 / 0\<close> is NaN. A \<open>jsnumber\<close> is a number or NaN. An arithmetic
  operation with a NaN operand gives NaN, so do \<open>Math.min\<close> and \<open>Math.max\<close>, and every
  comparison with NaN is false. The infinities are not represented: \<open>x / 0\<close> is given as NaN
  for every \<open>x\<close>, and the divisors below are non-zero constants or a count that is 0 only
  when the dividend is 0.
\<close>

datatype jsnumber = Num number | NaN

fun j_add :: "jsnumber \<Rightarrow> jsnumber \<Rightarrow> jsnumber" where
  "j_add (Num a) (Num b) = Num (a + b)"
| "j_add _ _ = NaN"

fun j_sub :: "jsnumber \<Rightarrow> jsnumber \<Rightarrow> jsnumber" where
  "j_sub (Num a) (Num b) = Num (a - b)"
| "j_sub _ _ = NaN"

fun j_mul :: "jsnumber \<Rightarrow> jsnumber \<Rightarrow> jsnumber" where
  "j_mul (Num a) (Num b) = Num (a * b)"
| "j_mul _ _ = NaN"

fun j_div :: "jsnumber \<Rightarrow> jsnumber \<Rightarrow> jsnumber" where
  "j_div (Num a) (Num b) = (if b = 0 then NaN else Num (a / b))"
| "j_div _ _ = NaN"

fun j_abs :: "jsnumber \<Rightarrow> jsnumber" where
  "j_abs (Num a) = Num \<bar>a\<bar>"
| "j_abs NaN = NaN"

fun Math_min :: "jsnumber \<Rightarrow> jsnumber \<Rightarrow> jsnumber" where
  "Math_min (Num a) (Num b) = Num (min a b)"
| "Math_min _ _ = NaN"

fun Math_max :: "jsnumber \<Rightarrow> jsnumber \<Rightarrow> jsnumber" where
  "Math_max (Num a) (Num b) = Num (max a b)"
| "Math_max _ _ = NaN"

fun j_le :: "jsnumber \<Rightarrow> jsnumber \<Rightarrow> bool" where
  "j_le (Num a) (Num b) \<longleftrightarrow> a \<le> b"
| "j_le _ _ \<longleftrightarrow> False"

fun j_lt :: "jsnumber \<Rightarrow> jsnumber \<Rightarrow> bool" where
  "j_lt (Num a) (Num b) \<longleftrightarrow> a < b"
| "j_lt _ _ \<longleftrightarrow> False"

text \<open>\<open>x >= y\<close> and \<open>x > y\<close>.\<close>

definition j_ge :: "jsnumber \<Rightarrow> jsnumber \<Rightarrow> bool" where
  "j_ge x y = j_le y x"

definition j_gt :: "jsnumber \<Rightarrow> jsnumber \<Rightarrow> bool" where
  "j_gt x y = j_lt y x"

text \<open>\<open>Math.round\<close>: the nearest integer, a tie going towards \<open>+\<infinity>\<close>.\<close>

definition Math_round :: "number \<Rightarrow> number" where
  "Math_round x = of_int \<lfloor>x + 1 / 2\<rfloor>"

text \<open>\<open>Array.prototype.join\<close> with a separator.\<close>

fun join :: "string \<Rightarrow> string list \<Rightarrow> string" where
  "join sep [] = []"
| "join sep [x] = x"
| "join sep (x # y # ys) = x @ sep @ join sep (y # ys)"

text \<open>\<open>String.prototype.replace\<close> with a one-character pattern: the first occurrence only.\<close>

fun replace_first :: "char \<Rightarrow> char \<Rightarrow> string \<Rightarrow> string" where
  "replace_first a b [] = []"
| "replace_first a b (c # cs) = (if c = a then b # cs else c # replace_first a b cs)"

section \<open>Content analysis (\<open>ImageContentAnalyzer\<close>)\<close>

datatype ContentType = photo | graphic | mixed

datatype CompressionStrategy = high_quality | balanced | size_optimized

record Characteristics =
  colorComplexity :: number
  edgeCount :: number
  hasTransparency :: bool
  colorDepth :: number
  aspectRatio :: number

record Analysis =
  contentType :: ContentType
  compressionStrategy :: CompressionStrategy
  characteristics :: Characteristics

text \<open>
  What the codec (sharp) reports for one image. A field the codec may leave undefined is
  an \<open>option\<close>; \<open>depth\<close> is \<open>Some d\<close> only when the reported depth is a number.
\<close>

record Metadata =
  width :: "number option"
  height :: "number option"
  channels :: "number option"
  hasAlpha :: "bool option"
  depth :: "number option"

record ChannelStats =
  mean :: number
  stdev :: number
  cmin :: number
  cmax :: number

type_synonym Stats = "ChannelStats list"

text \<open>
  The statistics of the greyscale image, which only the validator reads: the mean and the
  standard deviation of each channel, the latter NaN for an image of a single pixel.
\<close>

record GreyChannel =
  greyMean :: number
  greyStdev :: jsnumber

text \<open>
  The outcome of each codec call on an image: \<open>metadata()\<close>, \<open>stats()\<close>, the statistics of
  the greyscale image, and the statistics of the greyscale image convolved with the kernel
  \<open>[-1,-1,-1,-1,8,-1,-1,-1,-1]\<close>.
\<close>

record Image =
  metadataOf :: "Metadata result"
  statsOf :: "Stats result"
  greyStatsOf :: "GreyChannel list result"
  edgeStatsOf :: "Stats result"

text \<open>\<open>x || d\<close> on an optional number: undefined and 0 both give the default.\<close>

definition or_default :: "number option \<Rightarrow> number \<Rightarrow> number" where
  "or_default x d = (case x of None \<Rightarrow> d | Some v \<Rightarrow> if v = 0 then d else v)"

text \<open>
  \<open>calculateColorComplexity\<close>. For an empty channel list JavaScript computes \<open>0 / 0\<close>, which
  is NaN, where HOL gives 0; the codec reports at least one channel.
\<close>

definition calculateColorComplexity :: "Stats \<Rightarrow> number" where
  "calculateColorComplexity stats =
     (let channelVariances = map stdev stats;
          averageVariance = fold (\<lambda>variance sum. sum + variance) channelVariances 0
                              / real (length channelVariances)
      in min 100 ((averageVariance / 50) * 100))"

text \<open>
  \<open>estimateEdgeCount\<close>: the whole body is inside \<open>try\<close>, so a failing convolution, and also
  the read of \<open>channels[0].mean\<close> on an empty channel list, ends in the \<open>catch\<close>.
\<close>

definition estimateEdgeCount :: "Image \<Rightarrow> number" where
  "estimateEdgeCount img =
     (case edgeStatsOf img of
        Inl error \<Rightarrow> 50
      | Inr edgeDetected \<Rightarrow>
          (case edgeDetected of
             [] \<Rightarrow> 50
           | ch # _ \<Rightarrow> (let edgeIntensity = mean ch in min 100 ((edgeIntensity / 128) * 100))))"

definition determineColorDepth :: "Metadata \<Rightarrow> Stats \<Rightarrow> number" where
  "determineColorDepth metadata stats =
     (let depth0 = (case depth metadata of Some d \<Rightarrow> d | None \<Rightarrow> 8);
          channelRanges = map (\<lambda>channel. cmax channel - cmin channel) stats;
          averageRange = fold (\<lambda>range sum. sum + range) channelRanges 0
                           / real (length channelRanges)
      in if averageRange < 64 then min depth0 6
         else if averageRange < 128 then min depth0 7
         else depth0)"

text \<open>
  \<open>extractImageCharacteristics\<close> awaits \<open>stats()\<close> once more; only that call can throw here.
\<close>

definition extractImageCharacteristics :: "Image \<Rightarrow> Metadata \<Rightarrow> Characteristics result" where
  "extractImageCharacteristics img metadata =
     (let w = or_default (width metadata) 0;
          h = or_default (height metadata) 0;
          chans = or_default (channels metadata) 3;
          ratio = (if w > 0 \<and> h > 0 then w / h else 1);
          transparency = (chans = 4 \<or> hasAlpha metadata = Some True)
      in case statsOf img of
           Inl e \<Rightarrow> Inl e
         | Inr stats \<Rightarrow>
             Inr \<lparr> colorComplexity = calculateColorComplexity stats,
                   edgeCount = estimateEdgeCount img,
                   hasTransparency = transparency,
                   colorDepth = determineColorDepth metadata stats,
                   aspectRatio = ratio \<rparr>)"

text \<open>\<open>determineContentType\<close>; its second parameter, the metadata, is never read.\<close>

definition determineContentType :: "Characteristics \<Rightarrow> ContentType" where
  "determineContentType c =
     (if hasTransparency c \<or> edgeCount c > 70 \<or> (colorComplexity c < 40 \<and> colorDepth c \<le> 6)
      then graphic
      else if colorComplexity c > 60 \<and> edgeCount c < 40 \<and> \<not> hasTransparency c \<and> colorDepth c \<ge> 8
      then photo
      else mixed)"

fun determineCompressionStrategy :: "ContentType \<Rightarrow> Characteristics \<Rightarrow> CompressionStrategy" where
  "determineCompressionStrategy photo c =
     (if colorComplexity c > 80 then high_quality else balanced)"
| "determineCompressionStrategy graphic c =
     (if hasTransparency c \<or> edgeCount c > 80 then high_quality
      else if colorComplexity c < 30 \<and> edgeCount c < 50 then size_optimized
      else balanced)"
| "determineCompressionStrategy mixed c =
     (if colorComplexity c > 70 \<or> edgeCount c > 70 then high_quality else balanced)"

definition analyzeImageContent :: "Image \<Rightarrow> Analysis result" where
  "analyzeImageContent img =
     (case metadataOf img of
        Inl e \<Rightarrow> Inl (''Failed to analyze image content: '' @ e)
      | Inr metadata \<Rightarrow>
          (case statsOf img of
             Inl e \<Rightarrow> Inl (''Failed to analyze image content: '' @ e)
           | Inr stats \<Rightarrow>
               (case extractImageCharacteristics img metadata of
                  Inl e \<Rightarrow> Inl (''Failed to analyze image content: '' @ e)
                | Inr c \<Rightarrow>
                    (let ct = determineContentType c
                     in Inr \<lparr> contentType = ct,
                              compressionStrategy = determineCompressionStrategy ct c,
                              characteristics = c \<rparr>))))"

section \<open>Quality decision (\<open>DynamicQualityCalculator\<close>)\<close>

record QualityResult =
  quality :: number
  strategy :: CompressionStrategy
  reasoning :: string
  resultContentType :: ContentType

fun getBaseQuality :: "ContentType \<Rightarrow> CompressionStrategy \<Rightarrow> number" where
  "getBaseQuality photo high_quality = 92"
| "getBaseQuality photo balanced = 88"
| "getBaseQuality photo size_optimized = 82"
| "getBaseQuality graphic high_quality = 90"
| "getBaseQuality graphic balanced = 85"
| "getBaseQuality graphic size_optimized = 78"
| "getBaseQuality mixed high_quality = 91"
| "getBaseQuality mixed balanced = 86"
| "getBaseQuality mixed size_optimized = 80"

text \<open>
  \<open>applyQualityAdjustments\<close>: the variable \<open>adjustedQuality\<close> after each statement is
  \<open>q1\<close>, ..., \<open>q6\<close>.
\<close>

definition applyQualityAdjustments :: "number \<Rightarrow> Characteristics \<Rightarrow> ContentType \<Rightarrow> number" where
  "applyQualityAdjustments baseQuality c ct =
     (let q0 = baseQuality;
          q1 = (if colorComplexity c > 80 then q0 + 3
                else if colorComplexity c < 30 then q0 - 2 else q0);
          q2 = (if edgeCount c > 70 then q1 + 2
                else if edgeCount c < 30 then q1 - 1 else q1);
          q3 = (if hasTransparency c then q2 + 2 else q2);
          q4 = (if colorDepth c \<ge> 10 then q3 + 2
                else if colorDepth c \<le> 6 then q3 - 1 else q3);
          q5 = (if aspectRatio c > 3 \<or> aspectRatio c < 33 / 100 then q4 + 1 else q4);
          q6 = (case ct of
                  photo \<Rightarrow> if edgeCount c < 25 then q5 - 1 else q5
                | graphic \<Rightarrow> if colorComplexity c > 60 then q5 + 2 else q5
                | mixed \<Rightarrow> if colorComplexity c > 70 \<and> edgeCount c > 60 then q5 + 1 else q5)
      in min 95 (max 50 (Math_round q6)))"

fun strategyName :: "CompressionStrategy \<Rightarrow> string" where
  "strategyName high_quality = ''high_quality''"
| "strategyName balanced = ''balanced''"
| "strategyName size_optimized = ''size_optimized''"

fun contentTypeName :: "ContentType \<Rightarrow> string" where
  "contentTypeName photo = ''photo''"
| "contentTypeName graphic = ''graphic''"
| "contentTypeName mixed = ''mixed''"

text \<open>
  \<open>generateQualityReasoning\<close>. The conversion of a number to text inside a template
  literal is the parameter \<open>str\<close>.
\<close>

definition generateQualityReasoning ::
  "(number \<Rightarrow> string) \<Rightarrow> number \<Rightarrow> ContentType \<Rightarrow> CompressionStrategy \<Rightarrow> Characteristics
     \<Rightarrow> number \<Rightarrow> string" where
  "generateQualityReasoning str minimumQuality ct s c finalQuality =
     (let r0 = [contentTypeName ct @ '' content with ''
                  @ replace_first (CHR ''_'') (CHR '' '') (strategyName s) @ '' strategy''];
          r1 = (if colorComplexity c > 80
                  then r0 @ [''high color complexity requires higher quality'']
                else if colorComplexity c < 30
                  then r0 @ [''low color complexity allows lower quality'']
                else r0);
          r2 = (if edgeCount c > 70
                  then r1 @ [''high edge content needs quality preservation'']
                else if edgeCount c < 30
                  then r1 @ [''smooth gradients allow quality reduction'']
                else r1);
          r3 = (if hasTransparency c
                  then r2 @ [''transparency requires careful compression'']
                else r2);
          r4 = (if colorDepth c \<ge> 10
                  then r3 @ [''high color depth needs quality preservation'']
                else if colorDepth c \<le> 6
                  then r3 @ [''limited color depth allows compression'']
                else r3);
          reasons = (if finalQuality = minimumQuality
                  then r4 @ [''enforced minimum quality threshold ('' @ str minimumQuality @ ''%)'']
                else r4)
      in ''Quality '' @ str finalQuality @ ''%: '' @ join '', '' reasons)"

text \<open>
  The body of \<open>calculateOptimalQuality\<close> once the analysis has been obtained; nothing in it
  can throw.
\<close>

definition qualityFromAnalysis ::
  "(number \<Rightarrow> string) \<Rightarrow> number \<Rightarrow> Analysis \<Rightarrow> CompressionStrategy option \<Rightarrow> QualityResult" where
  "qualityFromAnalysis str minimumQuality analysis targetStrategy =
     (let s = (case targetStrategy of Some t \<Rightarrow> t | None \<Rightarrow> compressionStrategy analysis);
          baseQuality = getBaseQuality (contentType analysis) s;
          adjustedQuality = applyQualityAdjustments baseQuality (characteristics analysis)
                              (contentType analysis);
          finalQuality = max minimumQuality adjustedQuality
      in \<lparr> quality = finalQuality,
           strategy = s,
           reasoning = generateQualityReasoning str minimumQuality (contentType analysis) s
                         (characteristics analysis) finalQuality,
           resultContentType = contentType analysis \<rparr>)"

definition calculateOptimalQuality ::
  "(number \<Rightarrow> string) \<Rightarrow> number \<Rightarrow> Image \<Rightarrow> CompressionStrategy option \<Rightarrow> QualityResult result" where
  "calculateOptimalQuality str minimumQuality img targetStrategy =
     (case analyzeImageContent img of
        Inl e \<Rightarrow> Inl (''Failed to calculate optimal quality: '' @ e)
      | Inr analysis \<Rightarrow> Inr (qualityFromAnalysis str minimumQuality analysis targetStrategy))"

section \<open>Output validation (\<open>QualityValidator\<close>)\<close>

type_synonym path = string

text \<open>
  What the file system and the codec report for one path: the size from \<open>fs.stat\<close> (or its
  error), \<open>fs.pathExists\<close>, and the image \<open>sharp(path)\<close>. The world maps every path to this
  view; the encoder is the only operation that returns a new world.
\<close>

record File =
  statSize :: "number result"
  pathExists :: bool
  decoded :: Image

type_synonym World = "path \<Rightarrow> File"

record QualityMetrics =
  qualityLoss :: jsnumber
  structuralSimilarity :: jsnumber
  colorAccuracy :: jsnumber
  sharpnessRetention :: jsnumber

record ValidationMetrics =
  m_originalSize :: number
  m_optimizedSize :: number
  m_compressionRatio :: number
  m_qualityLoss :: jsnumber
  m_structuralSimilarity :: jsnumber

record ValidationResult =
  isValid :: bool
  v_qualityScore :: jsnumber
  sizeReduction :: number
  meetsThreshold :: bool
  issues :: "string list"
  metrics :: ValidationMetrics

text \<open>
  The three comparisons. Each body is inside its own \<open>try\<close>: a failing \<open>stats()\<close> call, or the
  read of \<open>channels[0]\<close> on an empty list, gives the default of that comparison. A NaN
  deviation throws nothing: it goes through the arithmetic of \<open>calculateStructuralSimilarity\<close>.
\<close>

definition calculateStructuralSimilarity :: "Image \<Rightarrow> Image \<Rightarrow> jsnumber" where
  "calculateStructuralSimilarity originalImage optimizedImage =
     (case greyStatsOf originalImage of
        Inl e \<Rightarrow> Num (8 / 10)
      | Inr originalStats \<Rightarrow>
          (case greyStatsOf optimizedImage of
             Inl e \<Rightarrow> Num (8 / 10)
           | Inr optimizedStats \<Rightarrow>
               (case (originalStats, optimizedStats) of
                  (o0 # _, p0 # _) \<Rightarrow>
                    (let meanDiff = \<bar>greyMean o0 - greyMean p0\<bar>;
                         stdevDiff = j_abs (j_sub (greyStdev o0) (greyStdev p0));
                         meanSimilarity = 1 - (meanDiff / 255);
                         stdevSimilarity = j_sub (Num 1) (j_div stdevDiff (Num 128))
                     in j_div (j_add (Num meanSimilarity) stdevSimilarity) (Num 2))
                | _ \<Rightarrow> Num (8 / 10))))"

text \<open>
  The loop of \<open>calculateColorAccuracy\<close> runs over the channels both images have. With no
  shared channel the result is \<open>0 / 0\<close>, which is NaN.
\<close>

definition calculateColorAccuracy :: "Image \<Rightarrow> Image \<Rightarrow> jsnumber" where
  "calculateColorAccuracy originalImage optimizedImage =
     (case statsOf originalImage of
        Inl e \<Rightarrow> Num (85 / 100)
      | Inr originalStats \<Rightarrow>
          (case statsOf optimizedImage of
             Inl e \<Rightarrow> Num (85 / 100)
           | Inr optimizedStats \<Rightarrow>
               (let channelCount = min (length originalStats) (length optimizedStats);
                    totalSimilarity =
                      fold (\<lambda>(originalChannel, optimizedChannel) total.
                              total + (1 - (\<bar>mean originalChannel - mean optimizedChannel\<bar> / 255)))
                        (zip originalStats optimizedStats) 0
                in j_div (Num totalSimilarity) (Num (real channelCount)))))"

definition calculateSharpnessRetention :: "Image \<Rightarrow> Image \<Rightarrow> jsnumber" where
  "calculateSharpnessRetention originalImage optimizedImage =
     (case edgeStatsOf originalImage of
        Inl e \<Rightarrow> Num (8 / 10)
      | Inr originalEdges \<Rightarrow>
          (case edgeStatsOf optimizedImage of
             Inl e \<Rightarrow> Num (8 / 10)
           | Inr optimizedEdges \<Rightarrow>
               (case (originalEdges, optimizedEdges) of
                  (o0 # _, p0 # _) \<Rightarrow>
                    (let originalEdgeIntensity = mean o0;
                         optimizedEdgeIntensity = mean p0
                     in if originalEdgeIntensity = 0 then Num 1
                        else Num (min 1 (optimizedEdgeIntensity / originalEdgeIntensity)))
                | _ \<Rightarrow> Num (8 / 10))))"

definition conservativeMetrics :: QualityMetrics where
  "conservativeMetrics =
     \<lparr> qualityLoss = Num 20, structuralSimilarity = Num (8 / 10),
       colorAccuracy = Num (85 / 100), sharpnessRetention = Num (8 / 10) \<rparr>"

text \<open>
  \<open>calculateQualityMetrics\<close>. The codec's \<open>resize\<close> is a parameter. What can throw inside the
  \<open>try\<close> is the two \<open>metadata()\<close> calls and \<open>resize\<close>; the \<open>catch\<close> returns the conservative
  estimates.
\<close>

definition calculateQualityMetrics ::
  "(Image \<Rightarrow> number option \<Rightarrow> number option \<Rightarrow> Image result) \<Rightarrow> Image \<Rightarrow> Image
     \<Rightarrow> QualityMetrics" where
  "calculateQualityMetrics resize originalImage optimizedImage =
     (case metadataOf originalImage of
        Inl e \<Rightarrow> conservativeMetrics
      | Inr originalMeta \<Rightarrow>
          (case metadataOf optimizedImage of
             Inl e \<Rightarrow> conservativeMetrics
           | Inr optimizedMeta \<Rightarrow>
               (case resize optimizedImage (width originalMeta) (height originalMeta) of
                  Inl e \<Rightarrow> conservativeMetrics
                | Inr resizedOptimized \<Rightarrow>
                    (let similarity = calculateStructuralSimilarity originalImage resizedOptimized;
                         accuracy = calculateColorAccuracy originalImage resizedOptimized;
                         retention = calculateSharpnessRetention originalImage resizedOptimized;
                         loss = j_sub (Num 100)
                                  (j_mul (j_div (j_add (j_add similarity accuracy) retention)
                                            (Num 3))
                                     (Num 100))
                     in \<lparr> qualityLoss = Math_max (Num 0) loss,
                          structuralSimilarity = similarity,
                          colorAccuracy = accuracy,
                          sharpnessRetention = retention \<rparr>))))"

definition calculateOverallQualityScore :: "QualityMetrics \<Rightarrow> number \<Rightarrow> jsnumber" where
  "calculateOverallQualityScore m targetQuality =
     (let structuralWeight = 4 / 10;
          colorWeight = 3 / 10;
          sharpnessWeight = 3 / 10;
          weightedScore =
            j_mul (j_add (j_add (j_mul (structuralSimilarity m) (Num structuralWeight))
                                (j_mul (colorAccuracy m) (Num colorWeight)))
                         (j_mul (sharpnessRetention m) (Num sharpnessWeight)))
                  (Num 100);
          targetAdjustment = targetQuality / 100;
          adjustedScore = j_mul weightedScore (Num targetAdjustment)
      in Math_min (Num 100) (Math_max (Num 0) adjustedScore))"

section \<open>Configuration (\<open>OptimizationConfig\<close>, \<open>ConfigManager\<close>)\<close>

text \<open>
  The fields \<open>quality.photo\<close>, \<open>quality.graphic\<close>, \<open>quality.mixed\<close> and \<open>quality.minimum\<close> are
  \<open>qPhoto\<close>, \<open>qGraphic\<close>, \<open>qMixed\<close> and \<open>qMinimum\<close>. The concurrency is a whole number.
\<close>

record QualityConfig =
  qPhoto :: number
  qGraphic :: number
  qMixed :: number
  qMinimum :: number

record DimensionsConfig =
  maxWidth :: number
  maxHeight :: number
  preserveAspectRatio :: bool

record ProcessingConfig =
  concurrency :: int
  enableProgressReporting :: bool
  continueOnError :: bool

datatype ReportFormat = JsonReport | TextReport

record OutputConfig =
  preserveFilenames :: bool
  generateReport :: bool
  reportFormat :: ReportFormat

record OptimizationConfig =
  cfgQuality :: QualityConfig
  cfgDimensions :: DimensionsConfig
  cfgProcessing :: ProcessingConfig
  cfgOutput :: OutputConfig
  supportedFormats :: "string list"

definition DEFAULT_CONFIG :: OptimizationConfig where
  "DEFAULT_CONFIG =
     \<lparr> cfgQuality = \<lparr> qPhoto = 88, qGraphic = 85, qMixed = 86, qMinimum = 78 \<rparr>,
       cfgDimensions = \<lparr> maxWidth = 1920, maxHeight = 1080, preserveAspectRatio = True \<rparr>,
       cfgProcessing = \<lparr> concurrency = 4, enableProgressReporting = True,
                         continueOnError = True \<rparr>,
       cfgOutput = \<lparr> preserveFilenames = True, generateReport = True,
                     reportFormat = JsonReport \<rparr>,
       supportedFormats = [''jpg'', ''jpeg'', ''png'', ''dng''] \<rparr>"

text \<open>
  A partial configuration: a group that is absent is \<open>None\<close>, and inside a group a key that is
  absent is \<open>None\<close>, so that the object spread \<open>{ ...base.g, ...updates.g }\<close> keeps the base value
  of every key the update does not have.
\<close>

record QualityUpdate =
  uPhoto :: "number option"
  uGraphic :: "number option"
  uMixed :: "number option"
  uMinimum :: "number option"

record DimensionsUpdate =
  uMaxWidth :: "number option"
  uMaxHeight :: "number option"
  uPreserveAspectRatio :: "bool option"

record ProcessingUpdate =
  uConcurrency :: "int option"
  uEnableProgressReporting :: "bool option"
  uContinueOnError :: "bool option"

record OutputUpdate =
  uPreserveFilenames :: "bool option"
  uGenerateReport :: "bool option"
  uReportFormat :: "ReportFormat option"

record PartialConfig =
  updQuality :: "QualityUpdate option"
  updDimensions :: "DimensionsUpdate option"
  updProcessing :: "ProcessingUpdate option"
  updOutput :: "OutputUpdate option"
  updSupportedFormats :: "string list option"

definition spread :: "'a \<Rightarrow> 'a option \<Rightarrow> 'a" where
  "spread base upd = (case upd of None \<Rightarrow> base | Some v \<Rightarrow> v)"

definition mergeConfig :: "OptimizationConfig \<Rightarrow> PartialConfig option \<Rightarrow> OptimizationConfig" where
  "mergeConfig base updates =
     (case updates of
        None \<Rightarrow> base
      | Some u \<Rightarrow>
          \<lparr> cfgQuality =
              (case updQuality u of
                 None \<Rightarrow> cfgQuality base
               | Some q \<Rightarrow>
                   \<lparr> qPhoto = spread (qPhoto (cfgQuality base)) (uPhoto q),
                     qGraphic = spread (qGraphic (cfgQuality base)) (uGraphic q),
                     qMixed = spread (qMixed (cfgQuality base)) (uMixed q),
                     qMinimum = spread (qMinimum (cfgQuality base)) (uMinimum q) \<rparr>),
            cfgDimensions =
              (case updDimensions u of
                 None \<Rightarrow> cfgDimensions base
               | Some d \<Rightarrow>
                   \<lparr> maxWidth = spread (maxWidth (cfgDimensions base)) (uMaxWidth d),
                     maxHeight = spread (maxHeight (cfgDimensions base)) (uMaxHeight d),
                     preserveAspectRatio =
                       spread (preserveAspectRatio (cfgDimensions base)) (uPreserveAspectRatio d) \<rparr>),
            cfgProcessing =
              (case updProcessing u of
                 None \<Rightarrow> cfgProcessing base
               | Some p \<Rightarrow>
                   \<lparr> concurrency = spread (concurrency (cfgProcessing base)) (uConcurrency p),
                     enableProgressReporting =
                       spread (enableProgressReporting (cfgProcessing base))
                         (uEnableProgressReporting p),
                     continueOnError =
                       spread (continueOnError (cfgProcessing base)) (uContinueOnError p) \<rparr>),
            cfgOutput =
              (case updOutput u of
                 None \<Rightarrow> cfgOutput base
               | Some out \<Rightarrow>
                   \<lparr> preserveFilenames =
                       spread (preserveFilenames (cfgOutput base)) (uPreserveFilenames out),
                     generateReport = spread (generateReport (cfgOutput base)) (uGenerateReport out),
                     reportFormat = spread (reportFormat (cfgOutput base)) (uReportFormat out) \<rparr>),
            supportedFormats = spread (supportedFormats base) (updSupportedFormats u) \<rparr>)"

text \<open>\<open>validateConfig\<close>: the checks in the order of the source, the first failing one throws.\<close>

definition validateConfig :: "(number \<Rightarrow> string) \<Rightarrow> OptimizationConfig \<Rightarrow> unit result" where
  "validateConfig str cfg =
     (let q = cfgQuality cfg; processing = cfgProcessing cfg
      in if qPhoto q < qMinimum q \<or> qPhoto q > 100
           then Inl (''Photo quality must be between '' @ str (qMinimum q) @ '' and 100'')
         else if qGraphic q < qMinimum q \<or> qGraphic q > 100
           then Inl (''Graphic quality must be between '' @ str (qMinimum q) @ '' and 100'')
         else if qMixed q < qMinimum q \<or> qMixed q > 100
           then Inl (''Mixed quality must be between '' @ str (qMinimum q) @ '' and 100'')
         else if qMinimum q < 1 \<or> qMinimum q > 100
           then Inl ''Minimum quality must be between 1 and 100''
         else if concurrency processing < 1
           then Inl ''Concurrency must be at least 1''
         else Inr ())"

text \<open>
  The constructor of \<open>ConfigManager\<close> merges and stores; it contains no call of
  \<open>validateConfig\<close> and no \<open>throw\<close>. \<open>updateConfig\<close> stores the merged configuration first and
  validates afterwards, so the new state is returned with the outcome.
\<close>

definition ConfigManager_new :: "PartialConfig option \<Rightarrow> OptimizationConfig result" where
  "ConfigManager_new customConfig = Inr (mergeConfig DEFAULT_CONFIG customConfig)"

definition updateConfig ::
  "(number \<Rightarrow> string) \<Rightarrow> OptimizationConfig \<Rightarrow> PartialConfig
     \<Rightarrow> OptimizationConfig \<times> unit result" where
  "updateConfig str cfg updates =
     (let merged = mergeConfig cfg (Some updates) in (merged, validateConfig str merged))"

section \<open>Results and collaborators\<close>

datatype Status = success | failed | skipped

record OptimizationResult =
  originalPath :: path
  optimizedPath :: path
  originalSize :: number
  optimizedSize :: number
  compressionRatio :: number
  qualityScore :: number
  processingTime :: number
  status :: Status
  errorMessage :: "string option"

record FormatValidation =
  f_isValid :: bool
  f_errorMessage :: "string option"

text \<open>
  The collaborators of the pipeline. \<open>numberText\<close> and \<open>toFixed1\<close> are the texts JavaScript gives a
  number in a template literal and through \<open>toFixed(1)\<close>; \<open>resize\<close> is the codec's resize;
  \<open>validateImageFile\<close> is the format detector, which catches its own errors;
  \<open>generateWebPOutputPath\<close> is the file manager's path computation; \<open>convertToWebP\<close> is the
  encoder, which catches its own errors, returns its result and leaves a new world;
  \<open>basename\<close> is \<open>path.basename\<close>; \<open>unhandledErrorText\<close> is the message of the error that an
  \<open>EventEmitter\<close> throws when \<open>'error'\<close> is emitted, with no listener registered, for the
  object made of an error (given by its message), a file name and a count of processed
  files.
\<close>

record Env =
  numberText :: "number \<Rightarrow> string"
  toFixed1 :: "number \<Rightarrow> string"
  resize :: "Image \<Rightarrow> number option \<Rightarrow> number option \<Rightarrow> Image result"
  validateImageFile :: "World \<Rightarrow> path \<Rightarrow> FormatValidation"
  generateWebPOutputPath :: "path \<Rightarrow> path \<Rightarrow> path"
  convertToWebP ::
    "World \<Rightarrow> path \<Rightarrow> path \<Rightarrow> number \<Rightarrow> number \<Rightarrow> number \<Rightarrow> OptimizationResult \<times> World"
  basename :: "path \<Rightarrow> string"
  unhandledErrorText :: "string \<Rightarrow> string \<Rightarrow> nat \<Rightarrow> string"

record IntegrityCheck =
  i_isValid :: bool
  i_error :: "string option"

definition validateFileIntegrity :: "World \<Rightarrow> path \<Rightarrow> IntegrityCheck" where
  "validateFileIntegrity w imagePath =
     (if \<not> pathExists (w imagePath)
        then \<lparr> i_isValid = False, i_error = Some ''Output file does not exist'' \<rparr>
      else case metadataOf (decoded (w imagePath)) of
             Inl e \<Rightarrow> \<lparr> i_isValid = False,
                        i_error = Some (''File integrity check failed: '' @ e) \<rparr>
           | Inr m \<Rightarrow>
               (case statSize (w imagePath) of
                  Inl e \<Rightarrow> \<lparr> i_isValid = False,
                             i_error = Some (''File integrity check failed: '' @ e) \<rparr>
                | Inr fileSize \<Rightarrow>
                    if fileSize = 0
                      then \<lparr> i_isValid = False, i_error = Some ''Output file is empty'' \<rparr>
                    else \<lparr> i_isValid = True, i_error = None \<rparr>))"

text \<open>\<open>toFixed(1)\<close> on a number that may be NaN.\<close>

definition toFixedText :: "Env \<Rightarrow> jsnumber \<Rightarrow> string" where
  "toFixedText env x = (case x of Num v \<Rightarrow> toFixed1 env v | NaN \<Rightarrow> ''NaN'')"

text \<open>
  The \<open>try\<close> block of \<open>validateOutputQuality\<close>. The two \<open>fs.stat\<close> calls are what can throw in it.
  The list \<open>issues\<close> after each \<open>push\<close> is \<open>i1\<close>, ..., \<open>i5\<close>. Where a size is 0 the quotients
  are NaN or infinite in JavaScript and 0 in HOL; they only reach \<open>sizeReduction\<close>,
  \<open>compressionRatio\<close> and the text of the first issue.
\<close>

definition validationAttempt ::
  "Env \<Rightarrow> number \<Rightarrow> number \<Rightarrow> World \<Rightarrow> path \<Rightarrow> path \<Rightarrow> number \<Rightarrow> ValidationResult result" where
  "validationAttempt env minimumQualityThreshold maximumSizeIncrease w origPath optPath targetQuality =
     (case statSize (w origPath) of
        Inl e \<Rightarrow> Inl e
      | Inr origSize \<Rightarrow>
          (case statSize (w optPath) of
             Inl e \<Rightarrow> Inl e
           | Inr optSize \<Rightarrow>
               (let reduction = ((origSize - optSize) / origSize) * 100;
                    ratio = origSize / optSize;
                    i1 = (if optSize > origSize * maximumSizeIncrease
                            then [''Output file is ''
                                    @ toFixed1 env ((optSize / origSize - 1) * 100)
                                    @ ''% larger than original'']
                          else []);
                    qualityMetrics = calculateQualityMetrics (resize env) (decoded (w origPath))
                                       (decoded (w optPath));
                    score = calculateOverallQualityScore qualityMetrics targetQuality;
                    meets = j_ge score (Num minimumQualityThreshold);
                    i2 = (if \<not> meets
                            then i1 @ [''Quality score '' @ toFixedText env score
                                         @ ''% below threshold ''
                                         @ numberText env minimumQualityThreshold @ ''%'']
                          else i1);
                    i3 = (if j_gt (qualityLoss qualityMetrics) (Num 30)
                            then i2 @ [''Excessive quality loss: ''
                                         @ toFixedText env (qualityLoss qualityMetrics) @ ''%'']
                          else i2);
                    i4 = (if j_lt (structuralSimilarity qualityMetrics) (Num (8 / 10))
                            then i3 @ [''Low structural similarity: ''
                                         @ toFixedText env
                                             (j_mul (structuralSimilarity qualityMetrics) (Num 100))
                                         @ ''%'']
                          else i3);
                    integrityCheck = validateFileIntegrity w optPath;
                    i5 = (if \<not> i_isValid integrityCheck
                            then i4 @ [''File integrity issue: ''
                                         @ (case i_error integrityCheck of
                                              Some e \<Rightarrow> e | None \<Rightarrow> ''undefined'')]
                          else i4)
                in Inr \<lparr> isValid = (i5 = []),
                         v_qualityScore = score,
                         sizeReduction = reduction,
                         meetsThreshold = meets,
                         issues = i5,
                         metrics = \<lparr> m_originalSize = origSize,
                                     m_optimizedSize = optSize,
                                     m_compressionRatio = ratio,
                                     m_qualityLoss = qualityLoss qualityMetrics,
                                     m_structuralSimilarity = structuralSimilarity qualityMetrics \<rparr> \<rparr>)))"

text \<open>The value the \<open>catch\<close> of \<open>validateOutputQuality\<close> returns.\<close>

definition validationFailure :: "string \<Rightarrow> ValidationResult" where
  "validationFailure e =
     \<lparr> isValid = False,
       v_qualityScore = Num 0,
       sizeReduction = 0,
       meetsThreshold = False,
       issues = [''Validation failed: '' @ e],
       metrics = \<lparr> m_originalSize = 0, m_optimizedSize = 0, m_compressionRatio = 0,
                   m_qualityLoss = Num 100, m_structuralSimilarity = Num 0 \<rparr> \<rparr>"

definition validateOutputQuality ::
  "Env \<Rightarrow> number \<Rightarrow> number \<Rightarrow> World \<Rightarrow> path \<Rightarrow> path \<Rightarrow> number \<Rightarrow> ValidationResult result" where
  "validateOutputQuality env minimumQualityThreshold maximumSizeIncrease w origPath optPath targetQuality =
     (case validationAttempt env minimumQualityThreshold maximumSizeIncrease w origPath optPath
             targetQuality of
        Inl e \<Rightarrow> Inr (validationFailure e)
      | Inr r \<Rightarrow> Inr r)"

section \<open>Progress bookkeeping and the final report (\<open>ProgressReporter\<close>)\<close>

record ProcessingReport =
  totalImages :: nat
  successfulConversions :: nat
  failedConversions :: nat
  totalSizeReduction :: number
  averageCompressionRatio :: number
  reportProcessingTime :: number
  results :: "OptimizationResult list"

text \<open>
  \<open>EventEmitter.emit('error', ...)\<close> is the one emission that can change the control flow: when
  no listener for \<open>'error'\<close> is registered, the call throws, the argument itself if it is an
  \<open>Error\<close> and otherwise an error whose message wraps the argument; \<open>thrown\<close> is the message
  of what is thrown. A registered listener is taken to return normally. The other events
  (\<open>'start'\<close>, \<open>'progress'\<close>, \<open>'complete'\<close>) are written and never read back and are left out,
  as are the clock and the console.
\<close>

definition emit_error :: "bool \<Rightarrow> string \<Rightarrow> unit result" where
  "emit_error listening thrown = (if listening then Inr () else Inl thrown)"

text \<open>
  The state of the reporter that the final report reads, and whether a listener for
  \<open>'error'\<close> is registered on it: the constructor registers none.
\<close>

record ProgressReporter =
  isActive :: bool
  processedFiles :: nat
  totalFiles :: nat
  collected :: "OptimizationResult list"
  processingTimes :: "number list"
  rpErrorListener :: bool

definition newReporter :: ProgressReporter where
  "newReporter =
     \<lparr> isActive = False, processedFiles = 0, totalFiles = 0, collected = [],
       processingTimes = [], rpErrorListener = False \<rparr>"

definition start :: "nat \<Rightarrow> ProgressReporter \<Rightarrow> ProgressReporter" where
  "start n rp =
     rp\<lparr> processedFiles := 0, totalFiles := n, collected := [], processingTimes := [],
         isActive := True \<rparr>"

definition updateProgress :: "OptimizationResult \<Rightarrow> ProgressReporter \<Rightarrow> ProgressReporter" where
  "updateProgress result rp =
     (if \<not> isActive rp then rp
      else rp\<lparr> processedFiles := processedFiles rp + 1,
               collected := collected rp @ [result],
               processingTimes :=
                 (if processingTime result > 0 then processingTimes rp @ [processingTime result]
                  else processingTimes rp) \<rparr>)"

text \<open>\<open>reportError\<close>, given the message of the error and the file name.\<close>

definition reportError :: "Env \<Rightarrow> string \<Rightarrow> string \<Rightarrow> ProgressReporter \<Rightarrow> unit result" where
  "reportError env msg filename rp =
     (if \<not> isActive rp then Inr ()
      else emit_error (rpErrorListener rp)
             (unhandledErrorText env msg filename (processedFiles rp)))"

definition generateFinalReport :: "number \<Rightarrow> ProgressReporter \<Rightarrow> ProcessingReport" where
  "generateFinalReport totalProcessingTime rp =
     (let successfulResults = filter (\<lambda>r. status r = success) (collected rp);
          failedResults = filter (\<lambda>r. status r = failed) (collected rp);
          reduction = fold (\<lambda>result total. total + (originalSize result - optimizedSize result))
                        successfulResults 0;
          average = (if length successfulResults > 0
                       then fold (\<lambda>result total. total + compressionRatio result)
                              successfulResults 0
                            / real (length successfulResults)
                     else 0)
      in \<lparr> totalImages = length (collected rp),
           successfulConversions = length successfulResults,
           failedConversions = length failedResults,
           totalSizeReduction = reduction,
           averageCompressionRatio = average,
           reportProcessingTime = totalProcessingTime,
           results = collected rp \<rparr>)"

definition complete ::
  "number \<Rightarrow> ProgressReporter \<Rightarrow> (ProcessingReport \<times> ProgressReporter) result" where
  "complete totalProcessingTime rp =
     (if \<not> isActive rp then Inl ''Progress reporter is not active''
      else Inr (generateFinalReport totalProcessingTime (rp\<lparr> isActive := False \<rparr>),
                rp\<lparr> isActive := False \<rparr>))"

section \<open>The per-item pipeline (\<open>BatchProcessor.processImage\<close>)\<close>

text \<open>
  What the constructor of \<open>BatchProcessor\<close> fixes: the configuration manager, the minimum of
  the quality calculator, the two thresholds of the validator (the second one is the
  default \<open>1.2\<close> of the validator's constructor), and a new progress reporter. The processor
  is an \<open>EventEmitter\<close> too: \<open>bpErrorListener\<close> tells whether a listener for \<open>'error'\<close> is
  registered on it, and none is at construction.
\<close>

record BatchProcessor =
  configManager :: OptimizationConfig
  calculatorMinimum :: number
  validatorThreshold :: number
  validatorMaximumSizeIncrease :: number
  progressReporter :: ProgressReporter
  bpErrorListener :: bool

definition BatchProcessor_new :: "PartialConfig option \<Rightarrow> BatchProcessor result" where
  "BatchProcessor_new customConfig =
     (case ConfigManager_new customConfig of
        Inl e \<Rightarrow> Inl e
      | Inr currentConfig \<Rightarrow>
          Inr \<lparr> configManager = currentConfig,
                calculatorMinimum = qMinimum (cfgQuality currentConfig),
                validatorThreshold = qMinimum (cfgQuality currentConfig),
                validatorMaximumSizeIncrease = 12 / 10,
                progressReporter = newReporter,
                bpErrorListener = False \<rparr>)"

definition failedResult :: "path \<Rightarrow> string \<Rightarrow> OptimizationResult" where
  "failedResult imagePath msg =
     \<lparr> originalPath = imagePath, optimizedPath = [], originalSize = 0, optimizedSize = 0,
       compressionRatio = 0, qualityScore = 0, processingTime = 0, status = failed,
       errorMessage = Some msg \<rparr>"

definition skippedResult :: "path \<Rightarrow> string \<Rightarrow> OptimizationResult" where
  "skippedResult imagePath msg =
     \<lparr> originalPath = imagePath, optimizedPath = [], originalSize = 0, optimizedSize = 0,
       compressionRatio = 0, qualityScore = 0, processingTime = 0, status = skipped,
       errorMessage = Some msg \<rparr>"

text \<open>\<open>x || d\<close> on an optional string: undefined and the empty string both give the default.\<close>

definition or_text :: "string option \<Rightarrow> string \<Rightarrow> string" where
  "or_text x d = (case x of None \<Rightarrow> d | Some v \<Rightarrow> if v = [] then d else v)"

text \<open>
  \<open>processImage\<close> returns the result and the world it leaves. An exception inside its \<open>try\<close>
  ends in the \<open>catch\<close>, which returns a failed result with the exception's message.
\<close>

definition processImage ::
  "Env \<Rightarrow> BatchProcessor \<Rightarrow> World \<Rightarrow> path \<Rightarrow> path \<Rightarrow> OptimizationResult \<times> World" where
  "processImage env bp w imagePath outputDirectory =
     (let validation = validateImageFile env w imagePath
      in if \<not> f_isValid validation
           then (skippedResult imagePath (or_text (f_errorMessage validation) ''Invalid image file''), w)
         else case calculateOptimalQuality (numberText env) (calculatorMinimum bp)
                     (decoded (w imagePath)) None of
                Inl e \<Rightarrow> (failedResult imagePath e, w)
              | Inr qualityResult \<Rightarrow>
                  (let optimalQuality = quality qualityResult;
                       outputPath = generateWebPOutputPath env imagePath outputDirectory;
                       cfg = configManager bp;
                       (result, w') = convertToWebP env w imagePath outputPath optimalQuality
                                        (maxWidth (cfgDimensions cfg)) (maxHeight (cfgDimensions cfg))
                   in if status result = success
                        then (case validateOutputQuality env (validatorThreshold bp)
                                     (validatorMaximumSizeIncrease bp) w' imagePath outputPath
                                     optimalQuality of
                                Inl e \<Rightarrow> (failedResult imagePath e, w')
                              | Inr qualityValidation \<Rightarrow>
                                  if \<not> isValid qualityValidation
                                    then (result\<lparr> status := failed,
                                                  errorMessage :=
                                                    Some (''Quality validation failed: ''
                                                          @ join '', '' (issues qualityValidation)) \<rparr>,
                                          w')
                                  else (result, w'))
                      else (result, w')))"

section \<open>The batch (\<open>Semaphore\<close>, \<open>processImagesInParallel\<close>, \<open>processDirectory\<close>)\<close>

text \<open>
  One task per image file, named by its index. A task is waiting in the semaphore's queue,
  or running (it holds a permit and its pipeline is in flight), or settled. The state also
  holds the calls of the two callbacks, in the order they were made: \<open>recorded\<close> for
  \<open>onResult(result, index)\<close> and \<open>reported\<close> for \<open>onError(error, imagePath)\<close>. The callbacks return
  nothing, so the caller's state is a fold over these two lists. The callbacks are the two
  that \<open>processDirectory\<close>, the only caller, passes; the callbacks of the client's options,
  which they call last, are taken to return normally.
\<close>

datatype Settled = Fulfilled | Rejected string

record BatchState =
  world :: World
  permits :: int
  waitQueue :: "nat list"
  running :: "nat list"
  recorded :: "(OptimizationResult \<times> nat) list"
  reported :: "(string \<times> path) list"
  settled :: "nat \<rightharpoonup> Settled"

definition initialState :: "World \<Rightarrow> int \<Rightarrow> BatchState" where
  "initialState w c =
     \<lparr> world = w, permits = c, waitQueue = [], running = [], recorded = [], reported = [],
       settled = Map.empty \<rparr>"

text \<open>
  The reporter once \<open>processDirectory\<close> has started it for \<open>n\<close> files and \<open>onResult\<close> has handed
  it the given results; and the \<open>onError\<close> callback with the reporter in that state: it
  reports the error to the reporter, then emits \<open>'error'\<close> on the processor with the error
  itself.
\<close>

definition reporterAfter ::
  "BatchProcessor \<Rightarrow> nat \<Rightarrow> (OptimizationResult \<times> nat) list \<Rightarrow> ProgressReporter" where
  "reporterAfter bp n calls =
     fold (\<lambda>(result, index). updateProgress result) calls (start n (progressReporter bp))"

definition onError ::
  "Env \<Rightarrow> BatchProcessor \<Rightarrow> ProgressReporter \<Rightarrow> string \<Rightarrow> path \<Rightarrow> unit result" where
  "onError env bp rp msg imagePath =
     (case reportError env msg (basename env imagePath) rp of
        Inl e \<Rightarrow> Inl e
      | Inr u \<Rightarrow> emit_error (bpErrorListener bp) msg)"

text \<open>\<open>Semaphore.acquire\<close> called by task \<open>i\<close>, and \<open>Semaphore.release\<close>.\<close>

definition acquire :: "nat \<Rightarrow> BatchState \<Rightarrow> BatchState" where
  "acquire i s =
     (if permits s > 0 then s\<lparr> permits := permits s - 1, running := running s @ [i] \<rparr>
      else s\<lparr> waitQueue := waitQueue s @ [i] \<rparr>)"

definition release :: "BatchState \<Rightarrow> BatchState" where
  "release s =
     (let s1 = s\<lparr> permits := permits s + 1 \<rparr>
      in case waitQueue s1 of
           [] \<Rightarrow> s1
         | nextTask # rest \<Rightarrow>
             s1\<lparr> waitQueue := rest, permits := permits s1 - 1,
                 running := running s1 @ [nextTask] \<rparr>)"

text \<open>
  The pipeline of the running task \<open>i\<close> returns: the rest of the task's body. The pipeline
  is applied to the current world as one step. In the \<open>try\<close> the result is handed to
  \<open>onResult\<close>; a failed result under \<open>continueOnError = false\<close> throws, the \<open>catch\<close> hands a
  second, fresh failed result to \<open>onResult\<close>, calls \<open>onError\<close> and throws again, and \<open>finally\<close>
  releases the permit. The task is rejected with what \<open>onError\<close> throws, if it throws, and
  with the error of the \<open>try\<close> otherwise.
\<close>

definition finishTask ::
  "Env \<Rightarrow> BatchProcessor \<Rightarrow> path list \<Rightarrow> path \<Rightarrow> nat \<Rightarrow> BatchState \<Rightarrow> BatchState" where
  "finishTask env bp imageFiles outputDirectory i s =
     (let imagePath = imageFiles ! i;
          (result, w') = processImage env bp (world s) imagePath outputDirectory;
          s1 = s\<lparr> world := w', running := remove1 i (running s),
                  recorded := recorded s @ [(result, i)] \<rparr>
      in if status result = failed \<and> \<not> continueOnError (cfgProcessing (configManager bp))
           then (let msg = or_text (errorMessage result) ''Image processing failed'';
                     s2 = s1\<lparr> recorded := recorded s1 @ [(failedResult imagePath msg, i)],
                              reported := reported s1 @ [(msg, imagePath)] \<rparr>;
                     thrown = (case onError env bp
                                       (reporterAfter bp (length imageFiles) (recorded s2))
                                       msg imagePath of
                                 Inl e \<Rightarrow> e
                               | Inr u \<Rightarrow> msg)
                 in release (s2\<lparr> settled := (settled s2)(i \<mapsto> Rejected thrown) \<rparr>))
         else release (s1\<lparr> settled := (settled s1)(i \<mapsto> Fulfilled) \<rparr>))"

text \<open>
  The event loop: each number of the schedule chooses which running task's pipeline
  returns next. The schedule is also the fuel.
\<close>

fun drain ::
  "Env \<Rightarrow> BatchProcessor \<Rightarrow> path list \<Rightarrow> path \<Rightarrow> nat list \<Rightarrow> BatchState \<Rightarrow> BatchState" where
  "drain env bp imageFiles outputDirectory [] s = s"
| "drain env bp imageFiles outputDirectory (k # ks) s =
     (if running s = [] then s
      else drain env bp imageFiles outputDirectory ks
             (finishTask env bp imageFiles outputDirectory
                (running s ! (k mod length (running s))) s))"

text \<open>The reasons of the rejected tasks, in the order of the input array.\<close>

definition rejections :: "nat \<Rightarrow> (nat \<rightharpoonup> Settled) \<Rightarrow> string list" where
  "rejections n st =
     List.map_filter (\<lambda>i. case st i of Some (Rejected msg) \<Rightarrow> Some msg | _ \<Rightarrow> None) [0..<n]"

text \<open>
  \<open>processImagesInParallel\<close>: \<open>None\<close> when \<open>Promise.allSettled\<close> has not resolved within the
  schedule, otherwise the outcome (\<open>Inl\<close> the error thrown) and the final state.
\<close>

definition processImagesInParallel ::
  "Env \<Rightarrow> BatchProcessor \<Rightarrow> path list \<Rightarrow> path \<Rightarrow> int \<Rightarrow> nat list \<Rightarrow> World
     \<Rightarrow> (unit result \<times> BatchState) option" where
  "processImagesInParallel env bp imageFiles outputDirectory c schedule w =
     (let s0 = fold acquire [0..<length imageFiles] (initialState w c);
          s1 = drain env bp imageFiles outputDirectory schedule s0
      in if running s1 \<noteq> [] \<or> waitQueue s1 \<noteq> [] then None
         else if \<not> continueOnError (cfgProcessing (configManager bp))
           then (case rejections (length imageFiles) (settled s1) of
                   [] \<Rightarrow> Some (Inr (), s1)
                 | firstError # _ \<Rightarrow> Some (Inl firstError, s1))
         else Some (Inr (), s1))"

text \<open>
  The collaborators of \<open>processDirectory\<close>: the checks of the options, the scan of the source
  directory, the creation of the output directory, and the writing of the mapping and the
  report (which catches its own errors).
\<close>

record Services =
  validateProcessingOptions :: "World \<Rightarrow> path \<Rightarrow> path \<Rightarrow> unit result"
  scanDirectory :: "World \<Rightarrow> path \<Rightarrow> path list result"
  createOutputDirectory :: "World \<Rightarrow> path \<Rightarrow> World result"
  saveProcessingArtifacts :: "World \<Rightarrow> path list \<Rightarrow> path \<Rightarrow> ProcessingReport \<Rightarrow> World"

record BatchProcessingOptions =
  sourceDirectory :: path
  outputDirectory :: path

text \<open>
  \<open>processDirectory\<close>. Every exception of the body ends in the \<open>catch\<close>, which emits \<open>'error'\<close>
  on the processor with a new error of the same message and then throws
  \<open>Batch processing failed: ...\<close>; \<open>batchFailure\<close> is that \<open>catch\<close>. The \<open>onResult\<close> callback hands
  each result to \<open>updateProgress\<close>. The result is \<open>None\<close> when the parallel phase has not
  resolved within the schedule.
\<close>

definition batchFailure ::
  "BatchProcessor \<Rightarrow> string \<Rightarrow> World \<Rightarrow> (ProcessingReport result \<times> World) option" where
  "batchFailure bp e w =
     (case emit_error (bpErrorListener bp) e of
        Inl thrown \<Rightarrow> Some (Inl thrown, w)
      | Inr u \<Rightarrow> Some (Inl (''Batch processing failed: '' @ e), w))"

definition processDirectory ::
  "Env \<Rightarrow> Services \<Rightarrow> BatchProcessor \<Rightarrow> nat list \<Rightarrow> number \<Rightarrow> World \<Rightarrow> BatchProcessingOptions
     \<Rightarrow> (ProcessingReport result \<times> World) option" where
  "processDirectory env sv bp schedule totalProcessingTime w options =
     (case validateProcessingOptions sv w (sourceDirectory options) (outputDirectory options) of
        Inl e \<Rightarrow> batchFailure bp e w
      | Inr u \<Rightarrow>
          (case scanDirectory sv w (sourceDirectory options) of
             Inl e \<Rightarrow> batchFailure bp e w
           | Inr imageFiles \<Rightarrow>
               if length imageFiles = 0
                 then batchFailure bp (''No supported image files found in '' @ sourceDirectory options) w
               else (case createOutputDirectory sv w (outputDirectory options) of
                       Inl e \<Rightarrow> batchFailure bp e w
                     | Inr w1 \<Rightarrow>
                         (case processImagesInParallel env bp imageFiles (outputDirectory options)
                                 (concurrency (cfgProcessing (configManager bp))) schedule w1 of
                            None \<Rightarrow> None
                          | Some (Inl e, s) \<Rightarrow> batchFailure bp e (world s)
                          | Some (Inr u', s) \<Rightarrow>
                              (let reporter = reporterAfter bp (length imageFiles) (recorded s)
                               in case complete totalProcessingTime reporter of
                                    Inl e \<Rightarrow> batchFailure bp e (world s)
                                  | Inr (report, reporter') \<Rightarrow>
                                      if generateReport (cfgOutput (configManager bp))
                                        then Some (Inr report,
                                                   saveProcessingArtifacts sv (world s) imageFiles
                                                     (outputDirectory options) report)
                                      else Some (Inr report, world s))))))"

section \<open>The quality decision as the specification words it\<close>

text \<open>
  The base matrix, the list of additive adjustments in the documented order, and the
  final value: rounded, clamped to \<open>[50, 95]\<close>, then floored at the minimum quality.
\<close>

definition specBase :: "ContentType \<Rightarrow> CompressionStrategy \<Rightarrow> number" where
  "specBase ct s =
     (case ct of
        photo \<Rightarrow> (case s of high_quality \<Rightarrow> 92 | balanced \<Rightarrow> 88 | size_optimized \<Rightarrow> 82)
      | graphic \<Rightarrow> (case s of high_quality \<Rightarrow> 90 | balanced \<Rightarrow> 85 | size_optimized \<Rightarrow> 78)
      | mixed \<Rightarrow> (case s of high_quality \<Rightarrow> 91 | balanced \<Rightarrow> 86 | size_optimized \<Rightarrow> 80))"

definition specAdjustments :: "ContentType \<Rightarrow> Characteristics \<Rightarrow> number list" where
  "specAdjustments ct c =
     [if colorComplexity c > 80 then 3 else if colorComplexity c < 30 then - 2 else 0,
      if edgeCount c > 70 then 2 else if edgeCount c < 30 then - 1 else 0,
      if hasTransparency c then 2 else 0,
      if colorDepth c \<ge> 10 then 2 else if colorDepth c \<le> 6 then - 1 else 0,
      if aspectRatio c > 3 \<or> aspectRatio c < 33 / 100 then 1 else 0,
      if ct = photo \<and> edgeCount c < 25 then - 1 else 0,
      if ct = graphic \<and> colorComplexity c > 60 then 2 else 0,
      if ct = mixed \<and> colorComplexity c > 70 \<and> edgeCount c > 60 then 1 else 0]"

definition specQuality ::
  "ContentType \<Rightarrow> CompressionStrategy \<Rightarrow> Characteristics \<Rightarrow> number \<Rightarrow> number" where
  "specQuality ct s c minimumQuality =
     max minimumQuality
       (min 95 (max 50 (of_int (round (specBase ct s + sum_list (specAdjustments ct c))))))"

text \<open>The overall validation score as the specification words it.\<close>

definition specQualityScore :: "number \<Rightarrow> number \<Rightarrow> number \<Rightarrow> number \<Rightarrow> number" where
  "specQualityScore structural color sharpness qualityUsed =
     min 100 (max 0 (100 * (4 / 10 * structural + 3 / 10 * color + 3 / 10 * sharpness)
                       * (qualityUsed / 100)))"

section \<open>Concrete scenarios\<close>

text \<open>
  Texts of numbers for the scenarios: \<open>integerText\<close> prints an integer-valued number the way
  JavaScript does, \<open>fixed1Text\<close> is \<open>toFixed(1)\<close> on the exact value.
\<close>

fun showNat :: "nat \<Rightarrow> string" where
  "showNat n =
     (if n < 10 then [''0123456789'' ! n]
      else showNat (n div 10) @ [''0123456789'' ! (n mod 10)])"

declare showNat.simps [simp del]

definition integerText :: "number \<Rightarrow> string" where
  "integerText x = (if x < 0 then ''-'' else []) @ showNat (nat \<lfloor>\<bar>x\<bar>\<rfloor>)"

definition fixed1Text :: "number \<Rightarrow> string" where
  "fixed1Text x =
     (let n = nat \<lfloor>\<bar>x\<bar> * 10 + 1 / 2\<rfloor>
      in (if x < 0 then ''-'' else []) @ showNat (n div 10) @ ''.'' @ showNat (n mod 10))"

text \<open>A flat icon with an alpha channel, and what the analyzer makes of it.\<close>

definition flatIcon :: Characteristics where
  "flatIcon =
     \<lparr> colorComplexity = 20, edgeCount = 10, hasTransparency = True, colorDepth = 6,
       aspectRatio = 1 \<rparr>"

definition flatIconAnalysis :: Analysis where
  "flatIconAnalysis =
     \<lparr> contentType = graphic, compressionStrategy = high_quality, characteristics = flatIcon \<rparr>"

text \<open>
  A 100 by 100 image of plain red, as the codec reports it, and the same image when the
  convolution fails.
\<close>

definition plainMetadata :: Metadata where
  "plainMetadata =
     \<lparr> width = Some 100, height = Some 100, channels = Some 3, hasAlpha = Some False,
       depth = None \<rparr>"

definition redImage :: Image where
  "redImage =
     \<lparr> metadataOf = Inr plainMetadata,
       statsOf = Inr [\<lparr> mean = 255, stdev = 0, cmin = 255, cmax = 255 \<rparr>,
                      \<lparr> mean = 0, stdev = 0, cmin = 0, cmax = 0 \<rparr>,
                      \<lparr> mean = 0, stdev = 0, cmin = 0, cmax = 0 \<rparr>],
       greyStatsOf = Inr [\<lparr> greyMean = 76, greyStdev = Num 0 \<rparr>],
       edgeStatsOf = Inr [\<lparr> mean = 0, stdev = 0, cmin = 0, cmax = 0 \<rparr>] \<rparr>"

definition noConvolveImage :: Image where
  "noConvolveImage = redImage\<lparr> edgeStatsOf := Inl ''convolve failed'' \<rparr>"

text \<open>Two invalid configurations: a concurrency of 0, and a minimum quality of 150.\<close>

definition zeroConcurrency :: PartialConfig where
  "zeroConcurrency =
     \<lparr> updQuality = None, updDimensions = None,
       updProcessing = Some \<lparr> uConcurrency = Some 0, uEnableProgressReporting = None,
                              uContinueOnError = None \<rparr>,
       updOutput = None, updSupportedFormats = None \<rparr>"

definition excessiveMinimum :: PartialConfig where
  "excessiveMinimum =
     \<lparr> updQuality = Some \<lparr> uPhoto = None, uGraphic = None, uMixed = None,
                           uMinimum = Some 150 \<rparr>,
       updDimensions = None, updProcessing = None, updOutput = None,
       updSupportedFormats = None \<rparr>"

text \<open>
  A world with three files: a plain red JPEG, a file with the extension \<open>.jpg\<close> that holds no
  image, and a small PNG. Every other path is missing. The scenario's encoder writes 900
  bytes for every input it can decode and fails on the others; the format detector
  accepts every file that exists (the detection falls back on the extension); resizing
  returns the image as it is; the base name of a path is what follows its last slash; the
  text of an unhandled \<open>'error'\<close> event lists the message, the file name and the count.
\<close>

definition unreadableImage :: "string \<Rightarrow> Image" where
  "unreadableImage msg =
     \<lparr> metadataOf = Inl msg, statsOf = Inl msg, greyStatsOf = Inl msg, edgeStatsOf = Inl msg \<rparr>"

definition missingFile :: File where
  "missingFile =
     \<lparr> statSize = Inl ''ENOENT: no such file or directory'', pathExists = False,
       decoded = unreadableImage ''Input file is missing'' \<rparr>"

definition scenarioWorld :: World where
  "scenarioWorld p =
     (if p = ''in/red.jpg''
        then \<lparr> statSize = Inr 2000, pathExists = True, decoded = redImage \<rparr>
      else if p = ''in/notes.jpg''
        then \<lparr> statSize = Inr 12, pathExists = True,
               decoded = unreadableImage ''Input file contains unsupported image format'' \<rparr>
      else if p = ''in/tiny.png''
        then \<lparr> statSize = Inr 100, pathExists = True, decoded = redImage \<rparr>
      else missingFile)"



definition pixelMetadata :: Metadata where
  "pixelMetadata =
     \<lparr> width = Some 1, height = Some 1, channels = Some 3, hasAlpha = Some False,
       depth = None \<rparr>"

definition pixelImage :: "number \<Rightarrow> Image" where
  "pixelImage d =
     \<lparr> metadataOf = Inr pixelMetadata,
       statsOf = Inr [\<lparr> mean = 255, stdev = d, cmin = 255, cmax = 255 \<rparr>,
                      \<lparr> mean = 0, stdev = d, cmin = 0, cmax = 0 \<rparr>,
                      \<lparr> mean = 0, stdev = d, cmin = 0, cmax = 0 \<rparr>],
       greyStatsOf = Inr [\<lparr> greyMean = 76, greyStdev = NaN \<rparr>],
       edgeStatsOf = Inr [\<lparr> mean = 0, stdev = d, cmin = 0, cmax = 0 \<rparr>] \<rparr>"

definition pixelWorld :: "number \<Rightarrow> World" where
  "pixelWorld d p =
     (if p = ''in/dot.png''
        then \<lparr> statSize = Inr 70, pathExists = True, decoded = pixelImage d \<rparr>
      else if p = ''out/dot.webp''
        then \<lparr> statSize = Inr 40, pathExists = True, decoded = pixelImage d \<rparr>
      else missingFile)"

definition scenarioEncoder ::
  "World \<Rightarrow> path \<Rightarrow> path \<Rightarrow> number \<Rightarrow> number \<Rightarrow> number \<Rightarrow> OptimizationResult \<times> World" where
  "scenarioEncoder w inputPath outputPath q maxW maxH =
     (case metadataOf (decoded (w inputPath)) of
        Inl e \<Rightarrow>
          (\<lparr> originalPath = inputPath, optimizedPath = outputPath, originalSize = 0,
             optimizedSize = 0, compressionRatio = 0, qualityScore = q, processingTime = 5,
             status = failed,
             errorMessage = Some (''Corrupted or unsupported image file: '' @ e) \<rparr>, w)
      | Inr md \<Rightarrow>
          (let inputSize = (case statSize (w inputPath) of Inl e \<Rightarrow> 0 | Inr n \<Rightarrow> n)
           in (\<lparr> originalPath = inputPath, optimizedPath = outputPath, originalSize = inputSize,
                 optimizedSize = 900, compressionRatio = ((inputSize - 900) / inputSize) * 100,
                 qualityScore = q, processingTime = 5, status = success, errorMessage = None \<rparr>,
               w(outputPath := \<lparr> statSize = Inr 900, pathExists = True,
                                 decoded = decoded (w inputPath) \<rparr>))))"

definition scenarioEnv :: Env where
  "scenarioEnv =
     \<lparr> numberText = integerText,
       toFixed1 = fixed1Text,
       resize = (\<lambda>img w h. Inr img),
       validateImageFile =
         (\<lambda>w p. if pathExists (w p) then \<lparr> f_isValid = True, f_errorMessage = None \<rparr>
                else \<lparr> f_isValid = False, f_errorMessage = Some (''File does not exist: '' @ p) \<rparr>),
       generateWebPOutputPath = (\<lambda>imagePath outDir. outDir @ ''/'' @ imagePath @ ''.webp''),
       convertToWebP = scenarioEncoder,
       basename = (\<lambda>p. rev (takeWhile (\<lambda>c. c \<noteq> CHR ''/'') (rev p))),
       unhandledErrorText =
         (\<lambda>msg filename n. ''Unhandled error. ({ error: Error: '' @ msg @ '', filename: ''
                             @ filename @ '', processedFiles: '' @ showNat n @ '' })'') \<rparr>"

definition strictConfig :: PartialConfig where
  "strictConfig =
     \<lparr> updQuality = None, updDimensions = None,
       updProcessing = Some \<lparr> uConcurrency = Some 1, uEnableProgressReporting = None,
                              uContinueOnError = Some False \<rparr>,
       updOutput = None, updSupportedFormats = None \<rparr>"

definition defaultProcessor :: BatchProcessor where
  "defaultProcessor = projr (BatchProcessor_new None)"

definition strictProcessor :: BatchProcessor where
  "strictProcessor = projr (BatchProcessor_new (Some strictConfig))"


definition scenarioServices :: Services where
  "scenarioServices =
     \<lparr> validateProcessingOptions = (\<lambda>w src out. Inr ()),
       scanDirectory = (\<lambda>w src. if src = ''in'' then Inr [''in/notes.jpg'', ''in/red.jpg'']
                               else Inr []),
       createOutputDirectory = (\<lambda>w out. Inr w),
       saveProcessingArtifacts = (\<lambda>w files out report. w) \<rparr>"

text \<open>The two-file batch of the scenario, the error of its unreadable file, the error that
  the reporter's emitter throws for it once two results are on record, and the result of
  its red image.\<close>

definition scenarioFiles :: "path list" where
  "scenarioFiles = [''in/notes.jpg'', ''in/red.jpg'']"

definition notesError :: string where
  "notesError = ''Failed to calculate optimal quality: Failed to analyze image content: Input file contains unsupported image format''"


definition redResult :: OptimizationResult where
  "redResult =
     \<lparr> originalPath = ''in/red.jpg'', optimizedPath = ''out/in/red.jpg.webp'',
       originalSize = 2000, optimizedSize = 900, compressionRatio = 55, qualityScore = 78,
       processingTime = 5, status = success, errorMessage = None \<rparr>"

text \<open>The options of the scenario's run, and the report it ends with.\<close>

definition scenarioOptions :: BatchProcessingOptions where
  "scenarioOptions = \<lparr> sourceDirectory = ''in'', outputDirectory = ''out'' \<rparr>"

definition scenarioReport :: ProcessingReport where
  "scenarioReport =
     \<lparr> totalImages = 2, successfulConversions = 1, failedConversions = 1,
       totalSizeReduction = 1100, averageCompressionRatio = 55, reportProcessingTime = 1234,
       results = [failedResult ''in/notes.jpg'' notesError, redResult] \<rparr>"

section \<open>Invariants of the batch state\<close>

text \<open>
  With \<open>n\<close> tasks: every task is waiting, running or settled, and in one of these only; the
  permits and the running tasks add up to the concurrency, and nobody waits while a
  permit is free; the indices handed to \<open>onResult\<close> are those of the settled tasks, once
  each when errors do not stop the run, a rejected task has a failed result on record and
  carries the error thrown for that result's message, and under \<open>continueOnError = false\<close> a
  fulfilled task has no failed result on record. \<open>thrownFor\<close> is the error thrown for the
  message \<open>msg\<close> of task \<open>i\<close> when \<open>k\<close> results are on record: the message itself if a listener
  for \<open>'error'\<close> is registered on the reporter, and the emitter's error otherwise.
  \<open>verdictOf\<close> is how a task settles on a pipeline result, and \<open>rejectionOf\<close> reads the reason
  of a rejected task.
\<close>

definition thrownFor ::
  "Env \<Rightarrow> BatchProcessor \<Rightarrow> path list \<Rightarrow> nat \<Rightarrow> string \<Rightarrow> nat \<Rightarrow> string" where
  "thrownFor env bp imageFiles k msg i =
     (if rpErrorListener (progressReporter bp) then msg
      else unhandledErrorText env msg (basename env (imageFiles ! i)) k)"

definition tasksPartition :: "nat \<Rightarrow> BatchState \<Rightarrow> bool" where
  "tasksPartition n s \<longleftrightarrow>
     distinct (running s @ waitQueue s) \<and>
     set (running s) \<union> set (waitQueue s) \<union> dom (settled s) = {0..<n} \<and>
     (set (running s) \<union> set (waitQueue s)) \<inter> dom (settled s) = {}"

definition permitsBalance :: "int \<Rightarrow> BatchState \<Rightarrow> bool" where
  "permitsBalance c s \<longleftrightarrow>
     permits s + int (length (running s)) = c \<and> (waitQueue s \<noteq> [] \<longrightarrow> permits s \<le> 0)"

definition recordsSettled ::
  "bool \<Rightarrow> (nat \<Rightarrow> string \<Rightarrow> nat \<Rightarrow> string) \<Rightarrow> BatchState \<Rightarrow> bool" where
  "recordsSettled cont thrown s \<longleftrightarrow>
     snd ` set (recorded s) = dom (settled s) \<and>
     (cont \<longrightarrow> distinct (map snd (recorded s))) \<and>
     (\<forall>i e. settled s i = Some (Rejected e) \<longrightarrow>
        \<not> cont \<and> (\<exists>r k. (r, i) \<in> set (recorded s) \<and> status r = failed \<and>
                       e = thrown k (or_text (errorMessage r) ''Image processing failed'') i)) \<and>
     (\<forall>i r. settled s i = Some Fulfilled \<and> \<not> cont \<and> (r, i) \<in> set (recorded s) \<longrightarrow>
        status r \<noteq> failed)"

definition verdictOf ::
  "bool \<Rightarrow> (string \<Rightarrow> string) \<Rightarrow> OptimizationResult \<Rightarrow> Settled" where
  "verdictOf cont thrown r =
     (if status r = failed \<and> \<not> cont
      then Rejected (thrown (or_text (errorMessage r) ''Image processing failed''))
      else Fulfilled)"


section \<open>Properties of the quality decision\<close>

lemma adjusted_shape: "\<exists>x. applyQualityAdjustments b c ct = min 95 (max 50 x)"
  unfolding applyQualityAdjustments_def Let_def by (rule exI) (rule refl)

lemma adjusted_bounds:
  "50 \<le> applyQualityAdjustments b c ct \<and> applyQualityAdjustments b c ct \<le> 95"
proof -
  obtain x where "applyQualityAdjustments b c ct = min 95 (max 50 x)"
    using adjusted_shape by blast
  then show ?thesis by simp
qed

lemma quality_unfold:
  "quality (qualityFromAnalysis str m a ts) =
     max m (applyQualityAdjustments
              (getBaseQuality (contentType a)
                 (case ts of Some t \<Rightarrow> t | None \<Rightarrow> compressionStrategy a))
              (characteristics a) (contentType a))"
  by (simp add: qualityFromAnalysis_def Let_def)

lemma strategy_unfold:
  "strategy (qualityFromAnalysis str m a ts) =
     (case ts of Some t \<Rightarrow> t | None \<Rightarrow> compressionStrategy a)"
  by (simp add: qualityFromAnalysis_def Let_def)

lemma quality_range:
  "m \<le> quality (qualityFromAnalysis str m a ts) \<and>
   quality (qualityFromAnalysis str m a ts) \<le> max 95 m"
  using adjusted_bounds [of "getBaseQuality (contentType a)
          (case ts of Some t \<Rightarrow> t | None \<Rightarrow> compressionStrategy a)"
        "characteristics a" "contentType a"]
  unfolding quality_unfold by auto

lemma calculateOptimalQuality_Inr:
  "calculateOptimalQuality str m img ts = Inr r \<Longrightarrow>
   \<exists>a. analyzeImageContent img = Inr a \<and> r = qualityFromAnalysis str m a ts"
  by (auto simp: calculateOptimalQuality_def split: sum.splits)

text \<open>
  C1, as stated, fails: with the valid minimum quality 100 the flat icon is given the
  quality 100, which is above 95.
\<close>

theorem quality_upper_bound_counterexample:
  "(1 :: number) \<le> 100 \<and> (100 :: number) \<le> 100 \<and>
   \<not> quality (qualityFromAnalysis integerText 100 flatIconAnalysis None) \<le> 95"
  by (simp add: quality_unfold flatIconAnalysis_def flatIcon_def applyQualityAdjustments_def
        Math_round_def Let_def)

text \<open>
  C1 (amended). For every analysis (any content type, strategy and characteristics),
  every number-to-text conversion and every minimum quality, the quality returned by the
  calculator is at least the minimum quality; it is at most 95 when the minimum quality is
  at most 95, and it is the minimum quality itself when that is above 95. The same holds
  for every successful \<open>calculateOptimalQuality\<close>. The result is a function of the inputs:
  equal inputs give the same quality and the same reasoning.
\<close>

theorem quality_within_minimum_and_cap:
  "(m \<le> 95 \<longrightarrow> m \<le> quality (qualityFromAnalysis str m a ts) \<and>
                quality (qualityFromAnalysis str m a ts) \<le> 95) \<and>
   (95 < m \<longrightarrow> quality (qualityFromAnalysis str m a ts) = m) \<and>
   (\<forall>img r. calculateOptimalQuality str m img ts = Inr r \<longrightarrow>
      m \<le> quality r \<and> quality r \<le> max 95 m) \<and>
   (\<forall>m' a' ts'. m' = m \<and> a' = a \<and> ts' = ts \<longrightarrow>
      quality (qualityFromAnalysis str m' a' ts') = quality (qualityFromAnalysis str m a ts) \<and>
      reasoning (qualityFromAnalysis str m' a' ts') = reasoning (qualityFromAnalysis str m a ts))"
proof (intro conjI)
  have range: "m \<le> quality (qualityFromAnalysis str m a' ts) \<and>
               quality (qualityFromAnalysis str m a' ts) \<le> max 95 m" for a'
    by (rule quality_range)
  show "m \<le> 95 \<longrightarrow> m \<le> quality (qualityFromAnalysis str m a ts) \<and>
                quality (qualityFromAnalysis str m a ts) \<le> 95"
    using range [of a] by linarith
  show "95 < m \<longrightarrow> quality (qualityFromAnalysis str m a ts) = m"
    using range [of a] by linarith
  show "\<forall>img r. calculateOptimalQuality str m img ts = Inr r \<longrightarrow>
      m \<le> quality r \<and> quality r \<le> max 95 m"
  proof (intro allI impI)
    fix img r
    assume "calculateOptimalQuality str m img ts = Inr r"
    then obtain a' where "r = qualityFromAnalysis str m a' ts"
      using calculateOptimalQuality_Inr by blast
    then show "m \<le> quality r \<and> quality r \<le> max 95 m"
      using range [of a'] by simp
  qed
  show "\<forall>m' a' ts'. m' = m \<and> a' = a \<and> ts' = ts \<longrightarrow>
      quality (qualityFromAnalysis str m' a' ts') = quality (qualityFromAnalysis str m a ts) \<and>
      reasoning (qualityFromAnalysis str m' a' ts') = reasoning (qualityFromAnalysis str m a ts)"
    by simp
qed

theorem quality_within_minimum_and_cap_witness:
  "(85 :: number) \<le> 95 \<and>
   85 \<le> quality (qualityFromAnalysis integerText 85 flatIconAnalysis None) \<and>
   quality (qualityFromAnalysis integerText 85 flatIconAnalysis None) \<le> 95 \<and>
   (95 :: number) < 100 \<and>
   quality (qualityFromAnalysis integerText 100 flatIconAnalysis None) = 100"
proof -
  have low: "(85 :: number) \<le> 95" and high: "(95 :: number) < 100"
    by simp_all
  from quality_within_minimum_and_cap [of 85 integerText flatIconAnalysis None] low
  have "85 \<le> quality (qualityFromAnalysis integerText 85 flatIconAnalysis None) \<and>
        quality (qualityFromAnalysis integerText 85 flatIconAnalysis None) \<le> 95"
    by (elim conjE) (rule mp)
  moreover
  from quality_within_minimum_and_cap [of 100 integerText flatIconAnalysis None] high
  have "quality (qualityFromAnalysis integerText 100 flatIconAnalysis None) = 100"
    by (elim conjE) (erule (1) mp)
  ultimately show ?thesis using low high by blast
qed

lemma getBaseQuality_matrix: "getBaseQuality ct s = specBase ct s"
  by (cases ct; cases s) (simp_all add: specBase_def)

lemma Math_round_round: "Math_round x = of_int (round x)"
  by (simp add: Math_round_def round_def)

lemma adjustments_sum:
  "applyQualityAdjustments b c ct =
     min 95 (max 50 (Math_round (b + sum_list (specAdjustments ct c))))"
proof -
  have s1: "(if colorComplexity c > 80 then q + 3 else if colorComplexity c < 30 then q - 2 else q)
            = q + specAdjustments ct c ! 0" for q :: number
    by (simp add: specAdjustments_def)
  have s2: "(if edgeCount c > 70 then q + 2 else if edgeCount c < 30 then q - 1 else q)
            = q + specAdjustments ct c ! 1" for q :: number
    by (simp add: specAdjustments_def)
  have s3: "(if hasTransparency c then q + 2 else q) = q + specAdjustments ct c ! 2"
    for q :: number
    by (simp add: specAdjustments_def)
  have s4: "(if colorDepth c \<ge> 10 then q + 2 else if colorDepth c \<le> 6 then q - 1 else q)
            = q + specAdjustments ct c ! 3" for q :: number
    by (simp add: specAdjustments_def)
  have s5: "(if aspectRatio c > 3 \<or> aspectRatio c < 33 / 100 then q + 1 else q)
            = q + specAdjustments ct c ! 4" for q :: number
    by (simp add: specAdjustments_def)
  have s6: "(case ct of
               photo \<Rightarrow> if edgeCount c < 25 then q - 1 else q
             | graphic \<Rightarrow> if colorComplexity c > 60 then q + 2 else q
             | mixed \<Rightarrow> if colorComplexity c > 70 \<and> edgeCount c > 60 then q + 1 else q)
            = q + (specAdjustments ct c ! 5 + specAdjustments ct c ! 6 + specAdjustments ct c ! 7)"
    for q :: number
    by (cases ct) (simp_all add: specAdjustments_def)
  have total: "sum_list (specAdjustments ct c) =
      specAdjustments ct c ! 0 + (specAdjustments ct c ! 1 + (specAdjustments ct c ! 2
        + (specAdjustments ct c ! 3 + (specAdjustments ct c ! 4 + (specAdjustments ct c ! 5
        + (specAdjustments ct c ! 6 + specAdjustments ct c ! 7))))))"
    unfolding specAdjustments_def by (simp split del: if_split)
  have "applyQualityAdjustments b c ct =
          min 95 (max 50 (Math_round (b + specAdjustments ct c ! 0 + specAdjustments ct c ! 1
            + specAdjustments ct c ! 2 + specAdjustments ct c ! 3 + specAdjustments ct c ! 4
            + (specAdjustments ct c ! 5 + specAdjustments ct c ! 6 + specAdjustments ct c ! 7))))"
    unfolding applyQualityAdjustments_def Let_def s1 s2 s3 s4 s5 s6 by (rule refl)
  also have "\<dots> = min 95 (max 50 (Math_round (b + sum_list (specAdjustments ct c))))"
    by (simp only: total add.assoc)
  finally show ?thesis .
qed

text \<open>
  C2. For every content type, every strategy (the one asked for, or the one of the analysis
  when none is asked for), every characteristics value and every minimum quality, the
  quality the calculator returns is the value the specification describes: the base value
  of the 3 by 3 matrix at that content type and that strategy, plus the additive
  adjustments in the documented order, rounded, clamped to \<open>[50, 95]\<close>, then floored at the
  minimum quality. The strategy returned is that same strategy, and every successful
  \<open>calculateOptimalQuality\<close> returns this value for the analysis of its image.
\<close>

theorem quality_matches_specification:
  "quality (qualityFromAnalysis str m a ts) =
     specQuality (contentType a) (case ts of Some t \<Rightarrow> t | None \<Rightarrow> compressionStrategy a)
       (characteristics a) m \<and>
   strategy (qualityFromAnalysis str m a ts) =
     (case ts of Some t \<Rightarrow> t | None \<Rightarrow> compressionStrategy a) \<and>
   quality (qualityFromAnalysis str m
              \<lparr> contentType = ct, compressionStrategy = s', characteristics = c \<rparr> (Some s))
     = specQuality ct s c m \<and>
   quality (qualityFromAnalysis str m
              \<lparr> contentType = ct, compressionStrategy = s, characteristics = c \<rparr> None)
     = specQuality ct s c m \<and>
   (\<forall>img r. calculateOptimalQuality str m img ts = Inr r \<longrightarrow>
      (\<exists>an. analyzeImageContent img = Inr an \<and>
            quality r = specQuality (contentType an)
                          (case ts of Some t \<Rightarrow> t | None \<Rightarrow> compressionStrategy an)
                          (characteristics an) m))"
proof (intro conjI allI impI)
  have gen: "quality (qualityFromAnalysis str m a' ts') =
     specQuality (contentType a') (case ts' of Some t \<Rightarrow> t | None \<Rightarrow> compressionStrategy a')
       (characteristics a') m" for a' ts'
    by (simp only: quality_unfold specQuality_def adjustments_sum getBaseQuality_matrix
        Math_round_round)
  show "quality (qualityFromAnalysis str m a ts) =
     specQuality (contentType a) (case ts of Some t \<Rightarrow> t | None \<Rightarrow> compressionStrategy a)
       (characteristics a) m"
    by (rule gen)
  show "strategy (qualityFromAnalysis str m a ts) =
     (case ts of Some t \<Rightarrow> t | None \<Rightarrow> compressionStrategy a)"
    by (rule strategy_unfold)
  show "quality (qualityFromAnalysis str m
              \<lparr> contentType = ct, compressionStrategy = s', characteristics = c \<rparr> (Some s))
     = specQuality ct s c m"
    using gen [of "\<lparr> contentType = ct, compressionStrategy = s', characteristics = c \<rparr>" "Some s"]
    by simp
  show "quality (qualityFromAnalysis str m
              \<lparr> contentType = ct, compressionStrategy = s, characteristics = c \<rparr> None)
     = specQuality ct s c m"
    using gen [of "\<lparr> contentType = ct, compressionStrategy = s, characteristics = c \<rparr>" None]
    by simp
  show "\<exists>an. analyzeImageContent img = Inr an \<and>
            quality r = specQuality (contentType an)
                          (case ts of Some t \<Rightarrow> t | None \<Rightarrow> compressionStrategy an)
                          (characteristics an) m"
    if h: "calculateOptimalQuality str m img ts = Inr r" for img r
  proof -
    from calculateOptimalQuality_Inr [OF h] obtain an
      where an: "analyzeImageContent img = Inr an" and r: "r = qualityFromAnalysis str m an ts"
      by (elim exE conjE)
    show ?thesis
      by (rule exI [of _ an], rule conjI, rule an, unfold r, rule gen)
  qed
qed

theorem quality_matches_specification_witness:
  "quality (qualityFromAnalysis integerText 78 flatIconAnalysis None) =
     specQuality graphic high_quality flatIcon 78 \<and>
   specQuality graphic high_quality flatIcon 78 = 88 \<and>
   quality (qualityFromAnalysis integerText 50 flatIconAnalysis (Some size_optimized)) =
     specQuality graphic size_optimized flatIcon 50 \<and>
   specQuality graphic size_optimized flatIcon 50 = 76 \<and>
   (\<exists>r an. calculateOptimalQuality integerText 78 redImage None = Inr r \<and>
      analyzeImageContent redImage = Inr an \<and>
      quality r = specQuality (contentType an) (compressionStrategy an) (characteristics an) 78)"
proof -
  have v1: "specQuality graphic high_quality flatIcon 78 = 88"
    by (simp add: specQuality_def specBase_def specAdjustments_def flatIcon_def)
  have v2: "specQuality graphic size_optimized flatIcon 50 = 76"
    by (simp add: specQuality_def specBase_def specAdjustments_def flatIcon_def)
  have q1: "quality (qualityFromAnalysis integerText 78 flatIconAnalysis None) =
     specQuality graphic high_quality flatIcon 78"
    using quality_matches_specification
      [where str = integerText and m = 78 and a = flatIconAnalysis and ts = None,
       THEN conjunct1]
    by (simp add: flatIconAnalysis_def)
  have q2: "quality (qualityFromAnalysis integerText 50 flatIconAnalysis (Some size_optimized)) =
     specQuality graphic size_optimized flatIcon 50"
    using quality_matches_specification
      [where str = integerText and m = 50 and a = flatIconAnalysis
         and ts = "Some size_optimized", THEN conjunct1]
    by (simp add: flatIconAnalysis_def)
  have "\<exists>r. calculateOptimalQuality integerText 78 redImage None = Inr r"
    by (simp add: calculateOptimalQuality_def analyzeImageContent_def
        extractImageCharacteristics_def redImage_def Let_def)
  then obtain r where r: "calculateOptimalQuality integerText 78 redImage None = Inr r"
    by (elim exE)
  from quality_matches_specification
      [where str = integerText and m = 78 and ts = None,
       THEN conjunct2, THEN conjunct2, THEN conjunct2, THEN conjunct2,
       THEN spec, THEN spec, THEN mp, OF r]
  obtain an where an: "analyzeImageContent redImage = Inr an"
    and q: "quality r = specQuality (contentType an)
                          (case None of Some t \<Rightarrow> t | None \<Rightarrow> compressionStrategy an)
                          (characteristics an) 78"
    by (elim exE conjE)
  from q have q': "quality r
      = specQuality (contentType an) (compressionStrategy an) (characteristics an) 78"
    by simp
  have q3: "\<exists>r an. calculateOptimalQuality integerText 78 redImage None = Inr r \<and>
      analyzeImageContent redImage = Inr an \<and>
      quality r = specQuality (contentType an) (compressionStrategy an) (characteristics an) 78"
    by (rule exI [of _ r], rule exI [of _ an], intro conjI) (rule r, rule an, rule q')
  show ?thesis
    by (intro conjI) (rule q1 v1 q2 v2 q3)+
qed

section \<open>Properties of the content analysis\<close>

text \<open>
  C3. For every characteristics value with \<open>hasTransparency = true\<close>, \<open>determineContentType\<close>
  does not return \<open>photo\<close>: the result is \<open>graphic\<close> or \<open>mixed\<close>.
\<close>

theorem transparency_never_photo:
  "hasTransparency c \<Longrightarrow>
   determineContentType c \<noteq> photo \<and>
   (determineContentType c = graphic \<or> determineContentType c = mixed)"
  by (simp add: determineContentType_def)

theorem transparency_never_photo_witness:
  "hasTransparency flatIcon \<and> determineContentType flatIcon \<noteq> photo \<and>
   (determineContentType flatIcon = graphic \<or> determineContentType flatIcon = mixed)"
proof -
  have h: "hasTransparency flatIcon" by (simp add: flatIcon_def)
  from transparency_never_photo [OF h] h show ?thesis by blast
qed

text \<open>
  C10. If the edge-detection convolution fails, \<open>estimateEdgeCount\<close> returns 50 and does not
  propagate the error: whenever the metadata and the statistics of the image can be
  read, the analysis succeeds with the edge score 50, and the content type and the
  strategy are the ones decided from the characteristics that hold this 50.
\<close>

theorem edge_fallback_is_50:
  "edgeStatsOf img = Inl e \<Longrightarrow>
   estimateEdgeCount img = 50 \<and>
   (\<forall>md st. metadataOf img = Inr md \<and> statsOf img = Inr st \<longrightarrow>
      (\<exists>a. analyzeImageContent img = Inr a \<and> edgeCount (characteristics a) = 50 \<and>
           contentType a = determineContentType (characteristics a) \<and>
           compressionStrategy a =
             determineCompressionStrategy (contentType a) (characteristics a)))"
  by (simp add: estimateEdgeCount_def analyzeImageContent_def extractImageCharacteristics_def
        Let_def)

theorem edge_fallback_is_50_witness:
  "edgeStatsOf noConvolveImage = Inl ''convolve failed'' \<and>
   estimateEdgeCount noConvolveImage = 50 \<and>
   (\<exists>a. analyzeImageContent noConvolveImage = Inr a \<and> edgeCount (characteristics a) = 50)"
proof -
  have h: "edgeStatsOf noConvolveImage = Inl ''convolve failed''"
    by (simp add: noConvolveImage_def)
  have md: "metadataOf noConvolveImage = Inr plainMetadata"
    by (simp add: noConvolveImage_def redImage_def)
  obtain st where st: "statsOf noConvolveImage = Inr st"
    by (simp add: noConvolveImage_def redImage_def)
  from edge_fallback_is_50 [OF h] md st h show ?thesis by blast
qed

text \<open>
  The fallback reaches the quality decision: the plain red image is given the quality 78
  when its edge response is measured, and 82 when the convolution fails.
\<close>

lemma quality_with_edge_fallback:
  "map_sum id quality (calculateOptimalQuality integerText 78 noConvolveImage None) = Inr 82"
  by (simp add: calculateOptimalQuality_def analyzeImageContent_def extractImageCharacteristics_def
    noConvolveImage_def redImage_def plainMetadata_def or_default_def estimateEdgeCount_def
    calculateColorComplexity_def determineColorDepth_def determineContentType_def
    qualityFromAnalysis_def applyQualityAdjustments_def Math_round_def Let_def)

lemma quality_with_edge_measured:
  "map_sum id quality (calculateOptimalQuality integerText 78 redImage None) = Inr 78"
  by (simp add: calculateOptimalQuality_def analyzeImageContent_def extractImageCharacteristics_def
    noConvolveImage_def redImage_def plainMetadata_def or_default_def estimateEdgeCount_def
    calculateColorComplexity_def determineColorDepth_def determineContentType_def
    qualityFromAnalysis_def applyQualityAdjustments_def Math_round_def Let_def)

section \<open>Properties of the validation score\<close>

lemma score_unfold:
  "calculateOverallQualityScore m q =
     Math_min (Num 100)
       (Math_max (Num 0)
          (j_mul (j_mul (j_add (j_add (j_mul (structuralSimilarity m) (Num (4 / 10)))
                                      (j_mul (colorAccuracy m) (Num (3 / 10))))
                               (j_mul (sharpnessRetention m) (Num (3 / 10))))
                        (Num 100))
                 (Num (q / 100))))"
  by (simp add: calculateOverallQualityScore_def Let_def)

lemma clamp_scaled_mono:
  fixes W :: real
  assumes "0 \<le> q1" and "q1 \<le> q2"
  shows "min 100 (max 0 (W * (q1 / 100))) \<le> min 100 (max 0 (W * (q2 / 100)))"
proof (cases "0 \<le> W")
  case True
  have "q1 / 100 \<le> q2 / 100" using assms by simp
  then have "W * (q1 / 100) \<le> W * (q2 / 100)"
    using True by (rule mult_left_mono)
  then show ?thesis by simp
next
  case False
  then have "W * (q1 / 100) \<le> 0"
    using assms by (simp add: mult_le_0_iff)
  then have "max 0 (W * (q1 / 100)) = 0" by simp
  then show ?thesis by simp
qed

text \<open>
  For metrics that are numbers the score is the documented one, a number of \<open>[0, 100]\<close> that
  does not decrease when the quality used grows.
\<close>

lemma score_of_numbers:
  assumes "structuralSimilarity m = Num s" and "colorAccuracy m = Num c"
    and "sharpnessRetention m = Num p"
  shows "calculateOverallQualityScore m q = Num (specQualityScore s c p q)"
  unfolding score_unfold assms by (simp add: specQualityScore_def algebra_simps)

lemma score_of_numbers_range:
  assumes "structuralSimilarity m = Num s" and "colorAccuracy m = Num c"
    and "sharpnessRetention m = Num p"
  shows "j_le (Num 0) (calculateOverallQualityScore m q) \<and>
         j_le (calculateOverallQualityScore m q) (Num 100)"
  unfolding score_of_numbers [OF assms] by (simp add: specQualityScore_def)

lemma score_of_numbers_mono:
  assumes "structuralSimilarity m = Num s" and "colorAccuracy m = Num c"
    and "sharpnessRetention m = Num p" and "0 \<le> q1" and "q1 \<le> q2"
  shows "j_le (calculateOverallQualityScore m q1) (calculateOverallQualityScore m q2)"
  unfolding score_of_numbers [OF assms(1,2,3)] j_le.simps specQualityScore_def
  using assms(4,5) by (rule clamp_scaled_mono)

text \<open>A metric that is NaN makes the score NaN, whatever the quality used.\<close>

lemma score_of_NaN:
  assumes "structuralSimilarity m = NaN \<or> colorAccuracy m = NaN \<or> sharpnessRetention m = NaN"
  shows "calculateOverallQualityScore m q = NaN"
proof -
  have l: "j_mul NaN x = NaN" and r: "j_add x NaN = NaN" and l': "j_add NaN x = NaN"
    and mx: "Math_max x NaN = NaN" and mn: "Math_min x NaN = NaN" for x
    by (cases x; simp)+
  from assms show ?thesis
    unfolding score_unfold by (elim disjE) (simp_all add: l r l' mx mn)
qed

text \<open>
  C6 fails on the code. For an image of a single pixel the codec reports the deviation NaN
  of the greyscale channel; \<open>calculateStructuralSimilarity\<close> computes with it and throws
  nothing, so its \<open>catch\<close> is not reached, and \<open>Math.min(100, Math.max(0, x))\<close> keeps the NaN.
  Whatever the quality used, and whatever the deviation the colour statistics carry, the
  score \<open>validateOutputQuality\<close> reports is NaN: it is not in \<open>[0, 100]\<close>, and the score at
  quality 80 is not below or equal to the score at quality 90. The validation then fails
  with the issue that the score is below the threshold.
\<close>

theorem single_pixel_score_is_NaN:
  "validateOutputQuality scenarioEnv 78 (12 / 10) (pixelWorld d) ''in/dot.png'' ''out/dot.webp'' q
     = Inr \<lparr> isValid = False, v_qualityScore = NaN, sizeReduction = 300 / 7,
             meetsThreshold = False,
             issues = [''Quality score NaN% below threshold 78%''],
             metrics = \<lparr> m_originalSize = 70, m_optimizedSize = 40, m_compressionRatio = 7 / 4,
                         m_qualityLoss = NaN, m_structuralSimilarity = NaN \<rparr> \<rparr> \<and>
   calculateStructuralSimilarity (pixelImage d) (pixelImage d) = NaN \<and>
   \<not> j_le (v_qualityScore (projr (validateOutputQuality scenarioEnv 78 (12 / 10) (pixelWorld d)
                                    ''in/dot.png'' ''out/dot.webp'' 80)))
          (v_qualityScore (projr (validateOutputQuality scenarioEnv 78 (12 / 10) (pixelWorld d)
                                    ''in/dot.png'' ''out/dot.webp'' 90))) \<and>
   \<not> j_le (Num 0) (v_qualityScore (projr (validateOutputQuality scenarioEnv 78 (12 / 10)
                                            (pixelWorld d) ''in/dot.png'' ''out/dot.webp'' q))) \<and>
   \<not> j_le (v_qualityScore (projr (validateOutputQuality scenarioEnv 78 (12 / 10)
                                    (pixelWorld d) ''in/dot.png'' ''out/dot.webp'' q))) (Num 100)"
proof -
  have ss: "calculateStructuralSimilarity (pixelImage d) (pixelImage d) = NaN"
    by (simp add: calculateStructuralSimilarity_def pixelImage_def)
  have run: "validateOutputQuality scenarioEnv 78 (12 / 10) (pixelWorld d) ''in/dot.png''
               ''out/dot.webp'' q'
     = Inr \<lparr> isValid = False, v_qualityScore = NaN, sizeReduction = 300 / 7,
             meetsThreshold = False,
             issues = [''Quality score NaN% below threshold 78%''],
             metrics = \<lparr> m_originalSize = 70, m_optimizedSize = 40, m_compressionRatio = 7 / 4,
                         m_qualityLoss = NaN, m_structuralSimilarity = NaN \<rparr> \<rparr>" for q'
    by (simp add: validateOutputQuality_def validationAttempt_def validateFileIntegrity_def
        calculateQualityMetrics_def calculateStructuralSimilarity_def calculateColorAccuracy_def
        calculateSharpnessRetention_def calculateOverallQualityScore_def pixelWorld_def
        pixelImage_def pixelMetadata_def scenarioEnv_def toFixedText_def j_ge_def j_gt_def
        integerText_def showNat.simps Let_def)
  show ?thesis
    unfolding run by (simp add: ss)
qed

section \<open>Properties of the configuration\<close>

text \<open>The constructor of the processor cannot fail, whatever the configuration.\<close>

lemma BatchProcessor_new_succeeds: "\<exists>bp. BatchProcessor_new custom = Inr bp"
  by (simp add: BatchProcessor_new_def ConfigManager_new_def)

text \<open>
  C9 fails on the code. Constructing the processor with a concurrency of 0, or with a
  minimum quality of 150, succeeds and stores the invalid value, although \<open>updateConfig\<close>
  rejects the same values through \<open>validateConfig\<close>.
\<close>

theorem constructor_accepts_invalid_configuration:
  "map_sum id (concurrency \<circ> cfgProcessing \<circ> configManager)
     (BatchProcessor_new (Some zeroConcurrency)) = Inr 0 \<and>
   snd (updateConfig integerText DEFAULT_CONFIG zeroConcurrency)
     = Inl ''Concurrency must be at least 1'' \<and>
   map_sum id calculatorMinimum (BatchProcessor_new (Some excessiveMinimum)) = Inr 150 \<and>
   snd (updateConfig integerText DEFAULT_CONFIG excessiveMinimum)
     = Inl ''Photo quality must be between 150 and 100''"
  by (simp add: BatchProcessor_new_def ConfigManager_new_def mergeConfig_def spread_def
        zeroConcurrency_def excessiveMinimum_def DEFAULT_CONFIG_def updateConfig_def
        validateConfig_def Let_def integerText_def showNat.simps)

section \<open>Properties of the validator\<close>

lemma validateOutputQuality_returns: "\<exists>r. validateOutputQuality env t mx w a b q = Inr r"
  by (simp add: validateOutputQuality_def split: sum.split)






lemma validation_readable:
  "statSize (w a) = Inr n \<Longrightarrow> statSize (w b) = Inr k \<Longrightarrow>
   \<exists>r. validateOutputQuality env t mx w a b q = Inr r \<and>
       v_qualityScore r = calculateOverallQualityScore
          (calculateQualityMetrics (resize env) (decoded (w a)) (decoded (w b))) q \<and>
       m_qualityLoss (metrics r) =
          qualityLoss (calculateQualityMetrics (resize env) (decoded (w a)) (decoded (w b))) \<and>
       m_structuralSimilarity (metrics r) =
          structuralSimilarity (calculateQualityMetrics (resize env) (decoded (w a)) (decoded (w b)))"
  by (simp add: validateOutputQuality_def validationAttempt_def Let_def)

text \<open>
  The score \<open>validateOutputQuality\<close> reports for two readable files whose three metrics are
  numbers is the documented one.
\<close>

lemma reported_score_of_numbers:
  assumes "statSize (w a) = Inr n" and "statSize (w b) = Inr k"
    and "structuralSimilarity
           (calculateQualityMetrics (resize env) (decoded (w a)) (decoded (w b))) = Num s"
    and "colorAccuracy
           (calculateQualityMetrics (resize env) (decoded (w a)) (decoded (w b))) = Num c"
    and "sharpnessRetention
           (calculateQualityMetrics (resize env) (decoded (w a)) (decoded (w b))) = Num p"
  shows "\<exists>r. validateOutputQuality env t mx w a b q = Inr r \<and>
             v_qualityScore r = Num (specQualityScore s c p q)"
proof -
  from validation_readable [OF assms(1,2), of env t mx q] obtain r
    where r: "validateOutputQuality env t mx w a b q = Inr r"
      and v: "v_qualityScore r = calculateOverallQualityScore
          (calculateQualityMetrics (resize env) (decoded (w a)) (decoded (w b))) q"
    by (elim exE conjE)
  have "v_qualityScore r = Num (specQualityScore s c p q)"
    unfolding v by (rule score_of_numbers [OF assms(3,4,5)])
  with r show ?thesis by (intro exI conjI)
qed

lemma reported_score_mono:
  assumes "statSize (w a) = Inr n" and "statSize (w b) = Inr k"
    and "structuralSimilarity
           (calculateQualityMetrics (resize env) (decoded (w a)) (decoded (w b))) = Num s"
    and "colorAccuracy
           (calculateQualityMetrics (resize env) (decoded (w a)) (decoded (w b))) = Num c"
    and "sharpnessRetention
           (calculateQualityMetrics (resize env) (decoded (w a)) (decoded (w b))) = Num p"
    and "0 \<le> q1" and "q1 \<le> q2"
    and "validateOutputQuality env t mx w a b q1 = Inr r1"
    and "validateOutputQuality env t mx w a b q2 = Inr r2"
  shows "j_le (v_qualityScore r1) (v_qualityScore r2)"
proof -
  from reported_score_of_numbers [OF assms(1-5), where t = t and mx = mx and q = q1] assms(8)
  have v1: "v_qualityScore r1 = Num (specQualityScore s c p q1)" by simp
  from reported_score_of_numbers [OF assms(1-5), where t = t and mx = mx and q = q2] assms(9)
  have v2: "v_qualityScore r2 = Num (specQualityScore s c p q2)" by simp
  show ?thesis
    unfolding v1 v2 j_le.simps specQualityScore_def
    using assms(6,7) by (rule clamp_scaled_mono)
qed





section \<open>The scenario, evaluated\<close>

lemmas scenario_defs = scenarioWorld_def scenarioEnv_def scenarioEncoder_def defaultProcessor_def
  strictProcessor_def strictConfig_def unreadableImage_def missingFile_def redImage_def
  plainMetadata_def BatchProcessor_new_def ConfigManager_new_def mergeConfig_def spread_def
  DEFAULT_CONFIG_def

lemmas quality_defs = calculateOptimalQuality_def analyzeImageContent_def
  extractImageCharacteristics_def or_default_def estimateEdgeCount_def
  calculateColorComplexity_def determineColorDepth_def determineContentType_def
  qualityFromAnalysis_def applyQualityAdjustments_def Math_round_def Let_def

lemmas validation_defs = validateOutputQuality_def validationAttempt_def validateFileIntegrity_def
  toFixedText_def j_ge_def j_gt_def
  calculateQualityMetrics_def calculateStructuralSimilarity_def calculateColorAccuracy_def
  calculateSharpnessRetention_def calculateOverallQualityScore_def

lemmas text_defs = integerText_def fixed1Text_def showNat.simps generateQualityReasoning_def

lemma notes_pipeline:
  "processImage scenarioEnv bp scenarioWorld ''in/notes.jpg'' ''out'' =
     (failedResult ''in/notes.jpg''
        ''Failed to calculate optimal quality: Failed to analyze image content: Input file contains unsupported image format'',
      scenarioWorld)"
  by (simp add: processImage_def scenarioEnv_def scenarioWorld_def unreadableImage_def
      calculateOptimalQuality_def analyzeImageContent_def)


lemma default_fields:
  "calculatorMinimum defaultProcessor = 78"
  "validatorThreshold defaultProcessor = 78"
  "validatorMaximumSizeIncrease defaultProcessor = 12 / 10"
  "maxWidth (cfgDimensions (configManager defaultProcessor)) = 1920"
  "maxHeight (cfgDimensions (configManager defaultProcessor)) = 1080"
  "continueOnError (cfgProcessing (configManager defaultProcessor)) = True"
  "concurrency (cfgProcessing (configManager defaultProcessor)) = 4"
  "generateReport (cfgOutput (configManager defaultProcessor)) = True"
  "progressReporter defaultProcessor = newReporter"
  "bpErrorListener defaultProcessor = False"
  by (simp_all add: defaultProcessor_def BatchProcessor_new_def
      ConfigManager_new_def mergeConfig_def spread_def DEFAULT_CONFIG_def)

lemma red_quality:
  "calculateOptimalQuality integerText 78 redImage None =
     Inr \<lparr> quality = 78, strategy = size_optimized,
           reasoning = ''Quality 78%: graphic content with size optimized strategy, low color complexity allows lower quality, smooth gradients allow quality reduction, limited color depth allows compression, enforced minimum quality threshold (78%)'',
           resultContentType = graphic \<rparr>"
  by (simp add: quality_defs redImage_def plainMetadata_def text_defs)

lemma red_encoded:
  "fst (scenarioEncoder scenarioWorld ''in/red.jpg'' ''out/in/red.jpg.webp'' 78 1920 1080)
     = redResult"
  by (simp add: scenarioEncoder_def scenarioWorld_def redImage_def Let_def redResult_def)

lemma red_validation:
  "isValid (projr (validateOutputQuality scenarioEnv 78 (12 / 10)
     (snd (scenarioEncoder scenarioWorld ''in/red.jpg'' ''out/in/red.jpg.webp'' 78 1920 1080))
     ''in/red.jpg'' ''out/in/red.jpg.webp'' 78))"
  by (simp add: validation_defs scenarioEncoder_def scenarioWorld_def scenarioEnv_def redImage_def
      plainMetadata_def Let_def text_defs)

lemma red_pipeline:
  assumes "calculatorMinimum bp = 78" and "validatorThreshold bp = 78"
    and "validatorMaximumSizeIncrease bp = 12 / 10"
    and "maxWidth (cfgDimensions (configManager bp)) = 1920"
    and "maxHeight (cfgDimensions (configManager bp)) = 1080"
  shows "fst (processImage scenarioEnv bp scenarioWorld ''in/red.jpg'' ''out'') = redResult"
proof -
  have env: "numberText scenarioEnv = integerText"
    "convertToWebP scenarioEnv = scenarioEncoder"
    "generateWebPOutputPath scenarioEnv ''in/red.jpg'' ''out'' = ''out/in/red.jpg.webp''"
    "f_isValid (validateImageFile scenarioEnv scenarioWorld ''in/red.jpg'')"
    "decoded (scenarioWorld ''in/red.jpg'') = redImage"
    by (simp_all add: scenarioEnv_def scenarioWorld_def)
  obtain r w' where enc:
    "scenarioEncoder scenarioWorld ''in/red.jpg'' ''out/in/red.jpg.webp'' 78 1920 1080 = (r, w')"
    by (cases "scenarioEncoder scenarioWorld ''in/red.jpg'' ''out/in/red.jpg.webp'' 78 1920 1080")
  from red_encoded enc have r: "r = redResult" by simp
  from red_validation enc have v: "isValid (projr (validateOutputQuality scenarioEnv 78 (12 / 10)
     w' ''in/red.jpg'' ''out/in/red.jpg.webp'' 78))" by simp
  obtain qv where qv: "validateOutputQuality scenarioEnv 78 (12 / 10)
     w' ''in/red.jpg'' ''out/in/red.jpg.webp'' 78 = Inr qv"
    using validateOutputQuality_returns by blast
  with v have ok: "isValid qv" by simp
  from qv have qv': "validateOutputQuality scenarioEnv 78 (6 / 5)
     w' ''in/red.jpg'' ''out/in/red.jpg.webp'' 78 = Inr qv" by simp
  show ?thesis
    by (simp add: processImage_def env assms red_quality enc qv' ok r Let_def redResult_def)
qed

section \<open>Properties of the pipeline\<close>

text \<open>
  C7. When the file is accepted, the quality is decided, the encoder succeeds and the
  validation reports \<open>isValid = false\<close>, the result of \<open>processImage\<close> is the encoder's result
  with the status changed to \<open>failed\<close> and the error message \<open>Quality validation failed: \<close>
  followed by the validation issues joined with a comma and a space. Every other field is
  the encoder's, and the world is the one the encoder left: the output file is still
  there.
\<close>

theorem validation_failure_flips_status:
  assumes "f_isValid (validateImageFile env w p)"
    and "calculateOptimalQuality (numberText env) (calculatorMinimum bp) (decoded (w p)) None
           = Inr qr"
    and "convertToWebP env w p (generateWebPOutputPath env p dir) (quality qr)
           (maxWidth (cfgDimensions (configManager bp)))
           (maxHeight (cfgDimensions (configManager bp))) = (r, w')"
    and "status r = success"
    and "validateOutputQuality env (validatorThreshold bp) (validatorMaximumSizeIncrease bp) w' p
           (generateWebPOutputPath env p dir) (quality qr) = Inr v"
    and "\<not> isValid v"
  shows "processImage env bp w p dir =
           (r\<lparr> status := failed,
               errorMessage := Some (''Quality validation failed: '' @ join '', '' (issues v)) \<rparr>,
            w') \<and>
         status (fst (processImage env bp w p dir)) = failed \<and>
         errorMessage (fst (processImage env bp w p dir))
           = Some (''Quality validation failed: '' @ join '', '' (issues v)) \<and>
         originalPath (fst (processImage env bp w p dir)) = originalPath r \<and>
         optimizedPath (fst (processImage env bp w p dir)) = optimizedPath r \<and>
         originalSize (fst (processImage env bp w p dir)) = originalSize r \<and>
         optimizedSize (fst (processImage env bp w p dir)) = optimizedSize r \<and>
         compressionRatio (fst (processImage env bp w p dir)) = compressionRatio r \<and>
         qualityScore (fst (processImage env bp w p dir)) = qualityScore r \<and>
         processingTime (fst (processImage env bp w p dir)) = processingTime r \<and>
         snd (processImage env bp w p dir) = w' \<and>
         snd (processImage env bp w p dir) (generateWebPOutputPath env p dir)
           = w' (generateWebPOutputPath env p dir)"
proof -
  have "processImage env bp w p dir =
           (r\<lparr> status := failed,
               errorMessage := Some (''Quality validation failed: '' @ join '', '' (issues v)) \<rparr>,
            w')"
    using assms by (simp add: processImage_def Let_def)
  then show ?thesis by simp
qed

lemma tiny_valid: "f_isValid (validateImageFile scenarioEnv scenarioWorld ''in/tiny.png'')"
  by (simp add: scenarioEnv_def scenarioWorld_def)

lemma tiny_quality:
  "calculateOptimalQuality (numberText scenarioEnv) (calculatorMinimum defaultProcessor)
     (decoded (scenarioWorld ''in/tiny.png'')) None
   = Inr (projr (calculateOptimalQuality integerText 78 redImage None))"
  by (simp add: red_quality scenarioEnv_def scenarioWorld_def defaultProcessor_def
      BatchProcessor_new_def ConfigManager_new_def mergeConfig_def DEFAULT_CONFIG_def)

lemma tiny_encoded:
  "fst (scenarioEncoder scenarioWorld ''in/tiny.png'' ''out/in/tiny.png.webp'' 78 1920 1080) =
     \<lparr> originalPath = ''in/tiny.png'', optimizedPath = ''out/in/tiny.png.webp'',
       originalSize = 100, optimizedSize = 900, compressionRatio = - 800, qualityScore = 78,
       processingTime = 5, status = success, errorMessage = None \<rparr>"
  by (simp add: scenarioEncoder_def scenarioWorld_def redImage_def Let_def)

lemma tiny_validation:
  "validateOutputQuality scenarioEnv 78 (12 / 10)
     (snd (scenarioEncoder scenarioWorld ''in/tiny.png'' ''out/in/tiny.png.webp'' 78 1920 1080))
     ''in/tiny.png'' ''out/in/tiny.png.webp'' 78
   = Inr \<lparr> isValid = False, v_qualityScore = Num 78, sizeReduction = - 800,
           meetsThreshold = True,
           issues = [''Output file is 800.0% larger than original''],
           metrics = \<lparr> m_originalSize = 100, m_optimizedSize = 900,
                       m_compressionRatio = 1 / 9, m_qualityLoss = Num 0,
                       m_structuralSimilarity = Num 1 \<rparr> \<rparr>"
  by (simp add: validation_defs scenarioEncoder_def scenarioWorld_def scenarioEnv_def redImage_def
      plainMetadata_def Let_def text_defs)

theorem validation_failure_flips_status_witness:
  "f_isValid (validateImageFile scenarioEnv scenarioWorld ''in/tiny.png'') \<and>
   status (fst (scenarioEncoder scenarioWorld ''in/tiny.png'' ''out/in/tiny.png.webp'' 78 1920 1080))
     = success \<and>
   fst (processImage scenarioEnv defaultProcessor scenarioWorld ''in/tiny.png'' ''out'') =
     \<lparr> originalPath = ''in/tiny.png'', optimizedPath = ''out/in/tiny.png.webp'',
       originalSize = 100, optimizedSize = 900, compressionRatio = - 800, qualityScore = 78,
       processingTime = 5, status = failed,
       errorMessage =
         Some ''Quality validation failed: Output file is 800.0% larger than original'' \<rparr> \<and>
   snd (processImage scenarioEnv defaultProcessor scenarioWorld ''in/tiny.png'' ''out'')
     = snd (scenarioEncoder scenarioWorld ''in/tiny.png'' ''out/in/tiny.png.webp'' 78 1920 1080) \<and>
   pathExists (snd (processImage scenarioEnv defaultProcessor scenarioWorld ''in/tiny.png'' ''out'')
                 ''out/in/tiny.png.webp'')"
proof -
  let ?qr = "projr (calculateOptimalQuality integerText 78 redImage None)"
  let ?enc = "scenarioEncoder scenarioWorld ''in/tiny.png'' ''out/in/tiny.png.webp'' 78 1920 1080"
  let ?v = "\<lparr> isValid = False, v_qualityScore = Num 78, sizeReduction = - 800,
           meetsThreshold = True,
           issues = [''Output file is 800.0% larger than original''],
           metrics = \<lparr> m_originalSize = 100, m_optimizedSize = 900,
                       m_compressionRatio = 1 / 9, m_qualityLoss = Num 0,
                       m_structuralSimilarity = Num 1 \<rparr> \<rparr>"
  have q: "quality ?qr = 78" by (simp add: red_quality)
  have path: "generateWebPOutputPath scenarioEnv ''in/tiny.png'' ''out'' = ''out/in/tiny.png.webp''"
    by (simp add: scenarioEnv_def)
  have h1: "f_isValid (validateImageFile scenarioEnv scenarioWorld ''in/tiny.png'')"
    by (rule tiny_valid)
  have h2: "calculateOptimalQuality (numberText scenarioEnv) (calculatorMinimum defaultProcessor)
              (decoded (scenarioWorld ''in/tiny.png'')) None = Inr ?qr"
    by (rule tiny_quality)
  have h3: "convertToWebP scenarioEnv scenarioWorld ''in/tiny.png''
              (generateWebPOutputPath scenarioEnv ''in/tiny.png'' ''out'') (quality ?qr)
              (maxWidth (cfgDimensions (configManager defaultProcessor)))
              (maxHeight (cfgDimensions (configManager defaultProcessor)))
            = (fst ?enc, snd ?enc)"
    unfolding q path default_fields by (simp add: scenarioEnv_def)
  have h4: "status (fst ?enc) = success"
    by (simp add: tiny_encoded)
  have h5: "validateOutputQuality scenarioEnv (validatorThreshold defaultProcessor)
              (validatorMaximumSizeIncrease defaultProcessor) (snd ?enc) ''in/tiny.png''
              (generateWebPOutputPath scenarioEnv ''in/tiny.png'' ''out'') (quality ?qr) = Inr ?v"
    unfolding q path default_fields by (rule tiny_validation)
  have h6: "\<not> isValid ?v" by simp
  note main = validation_failure_flips_status [OF h1 h2 h3 h4 h5 h6]
  have res: "fst (processImage scenarioEnv defaultProcessor scenarioWorld ''in/tiny.png'' ''out'') =
     \<lparr> originalPath = ''in/tiny.png'', optimizedPath = ''out/in/tiny.png.webp'',
       originalSize = 100, optimizedSize = 900, compressionRatio = - 800, qualityScore = 78,
       processingTime = 5, status = failed,
       errorMessage =
         Some ''Quality validation failed: Output file is 800.0% larger than original'' \<rparr>"
    unfolding main [THEN conjunct1] by (simp add: tiny_encoded)
  have w: "snd (processImage scenarioEnv defaultProcessor scenarioWorld ''in/tiny.png'' ''out'')
             = snd ?enc"
    unfolding main [THEN conjunct1] by simp
  have ex: "pathExists (snd (processImage scenarioEnv defaultProcessor scenarioWorld
                          ''in/tiny.png'' ''out'') ''out/in/tiny.png.webp'')"
    unfolding w by (simp add: scenarioEncoder_def scenarioWorld_def redImage_def Let_def)
  show ?thesis
    by (intro conjI) (rule h1 h4 res w ex)+
qed

section \<open>Properties of the batch\<close>

lemma acquire_fields:
  "running (acquire i s) = (if permits s > 0 then running s @ [i] else running s)"
  "waitQueue (acquire i s) = (if permits s > 0 then waitQueue s else waitQueue s @ [i])"
  "permits (acquire i s) = (if permits s > 0 then permits s - 1 else permits s)"
  "settled (acquire i s) = settled s"
  "recorded (acquire i s) = recorded s"
  "world (acquire i s) = world s"
  by (simp_all add: acquire_def)

lemma release_fields:
  "running (release s) = running s @ take 1 (waitQueue s)"
  "waitQueue (release s) = drop 1 (waitQueue s)"
  "permits (release s) = (if waitQueue s = [] then permits s + 1 else permits s)"
  "settled (release s) = settled s"
  "recorded (release s) = recorded s"
  "reported (release s) = reported s"
  "world (release s) = world s"
  by (simp_all add: release_def Let_def split: list.split)

lemma collected_fold:
  "isActive rp \<Longrightarrow>
   collected (fold (\<lambda>(result, index). updateProgress result) xs rp) = collected rp @ map fst xs \<and>
   isActive (fold (\<lambda>(result, index). updateProgress result) xs rp) \<and>
   processedFiles (fold (\<lambda>(result, index). updateProgress result) xs rp)
     = processedFiles rp + length xs \<and>
   rpErrorListener (fold (\<lambda>(result, index). updateProgress result) xs rp) = rpErrorListener rp"
proof (induction xs arbitrary: rp)
  case Nil
  then show ?case by simp
next
  case (Cons x xs)
  obtain r i where x: "x = (r, i)" by (cases x)
  have a: "isActive (updateProgress r rp)"
    and c: "collected (updateProgress r rp) = collected rp @ [r]"
    and p: "processedFiles (updateProgress r rp) = processedFiles rp + 1"
    and l: "rpErrorListener (updateProgress r rp) = rpErrorListener rp"
    using Cons.prems by (simp_all add: updateProgress_def)
  from Cons.IH [OF a] show ?case
    unfolding x by (simp add: c p l)
qed

lemma reporterAfter_fields:
  "isActive (reporterAfter bp n calls)"
  "collected (reporterAfter bp n calls) = map fst calls"
  "processedFiles (reporterAfter bp n calls) = length calls"
  "rpErrorListener (reporterAfter bp n calls) = rpErrorListener (progressReporter bp)"
proof -
  have act: "isActive (start n (progressReporter bp))" by (simp add: start_def)
  have st: "collected (start n (progressReporter bp)) = []"
    "processedFiles (start n (progressReporter bp)) = 0"
    "rpErrorListener (start n (progressReporter bp)) = rpErrorListener (progressReporter bp)"
    by (simp_all add: start_def)
  from collected_fold [OF act, of calls]
  show "isActive (reporterAfter bp n calls)"
    and "collected (reporterAfter bp n calls) = map fst calls"
    and "processedFiles (reporterAfter bp n calls) = length calls"
    and "rpErrorListener (reporterAfter bp n calls) = rpErrorListener (progressReporter bp)"
    unfolding reporterAfter_def by (simp_all add: st)
qed

lemma onError_thrown:
  "(case onError env bp (reporterAfter bp n calls) msg imagePath of Inl e \<Rightarrow> e | Inr u \<Rightarrow> msg)
     = (if rpErrorListener (progressReporter bp) then msg
        else unhandledErrorText env msg (basename env imagePath) (length calls))"
  by (simp add: onError_def reportError_def emit_error_def reporterAfter_fields)

lemma finishTask_fields:
  fixes env bp imageFiles out i s
  defines "res \<equiv> fst (processImage env bp (world s) (imageFiles ! i) out)"
    and "cont \<equiv> continueOnError (cfgProcessing (configManager bp))"
  shows "running (finishTask env bp imageFiles out i s)
           = remove1 i (running s) @ take 1 (waitQueue s)"
    and "waitQueue (finishTask env bp imageFiles out i s) = drop 1 (waitQueue s)"
    and "permits (finishTask env bp imageFiles out i s)
           = (if waitQueue s = [] then permits s + 1 else permits s)"
    and "settled (finishTask env bp imageFiles out i s)
           = (settled s)(i \<mapsto> verdictOf cont
                (\<lambda>msg. thrownFor env bp imageFiles (length (recorded s) + 2) msg i) res)"
    and "recorded (finishTask env bp imageFiles out i s)
           = recorded s @
             (if status res = failed \<and> \<not> cont
              then [(res, i),
                    (failedResult (imageFiles ! i)
                       (or_text (errorMessage res) ''Image processing failed''), i)]
              else [(res, i)])"
    and "world (finishTask env bp imageFiles out i s)
           = snd (processImage env bp (world s) (imageFiles ! i) out)"
  unfolding res_def cont_def
  by (simp_all add: finishTask_def Let_def release_fields verdictOf_def onError_thrown
      thrownFor_def split: prod.split)

lemma start_invariants:
  fixes w c k
  defines "s0 \<equiv> fold acquire [0..<k] (initialState w c)"
  shows "distinct (running s0 @ waitQueue s0)"
    and "set (running s0) \<union> set (waitQueue s0) = {0..<k}"
    and "settled s0 = Map.empty"
    and "recorded s0 = []"
    and "permits s0 + int (length (running s0)) = c"
    and "waitQueue s0 \<noteq> [] \<longrightarrow> permits s0 \<le> 0"
    and "world s0 = w"
proof -
  have "distinct (running s0 @ waitQueue s0) \<and>
        set (running s0) \<union> set (waitQueue s0) = {0..<k} \<and>
        settled s0 = Map.empty \<and> recorded s0 = [] \<and>
        permits s0 + int (length (running s0)) = c \<and>
        (waitQueue s0 \<noteq> [] \<longrightarrow> permits s0 \<le> 0) \<and> world s0 = w"
    unfolding s0_def
  proof (induction k)
    case 0
    show ?case by (simp add: initialState_def)
  next
    case (Suc k)
    let ?s = "fold acquire [0..<k] (initialState w c)"
    have step: "fold acquire [0..<Suc k] (initialState w c) = acquire k ?s"
      by simp
    have fresh: "k \<notin> set (running ?s) \<union> set (waitQueue ?s)"
      using Suc by simp
    show ?case
      unfolding step using Suc fresh
      by (auto simp: acquire_fields atLeast0_lessThan_Suc)
  qed
  then show "distinct (running s0 @ waitQueue s0)"
    and "set (running s0) \<union> set (waitQueue s0) = {0..<k}"
    and "settled s0 = Map.empty"
    and "recorded s0 = []"
    and "permits s0 + int (length (running s0)) = c"
    and "waitQueue s0 \<noteq> [] \<longrightarrow> permits s0 \<le> 0"
    and "world s0 = w"
    by blast+
qed

lemma start_partition: "tasksPartition n (fold acquire [0..<n] (initialState w c))"
  using start_invariants(1,2,3) [of n w c] by (simp add: tasksPartition_def)

lemma start_balance: "permitsBalance c (fold acquire [0..<n] (initialState w c))"
  using start_invariants(5,6) [of n w c] by (simp add: permitsBalance_def)

lemma start_records: "recordsSettled cont thrown (fold acquire [0..<n] (initialState w c))"
  using start_invariants(3,4) [of n w c] by (simp add: recordsSettled_def)

lemma take_drop_1: "take 1 xs @ drop 1 xs = xs"
  by simp

lemma finish_partition:
  assumes "tasksPartition n s" and "i \<in> set (running s)"
  shows "tasksPartition n (finishTask env bp imageFiles out i s)"
proof -
  from assms have d: "distinct (running s)" "distinct (waitQueue s)"
    and disj: "set (running s) \<inter> set (waitQueue s) = {}"
    and cover: "set (running s) \<union> set (waitQueue s) \<union> dom (settled s) = {0..<n}"
    and sep: "(set (running s) \<union> set (waitQueue s)) \<inter> dom (settled s) = {}"
    by (auto simp: tasksPartition_def)
  have wq: "set (take 1 (waitQueue s)) \<union> set (drop 1 (waitQueue s)) = set (waitQueue s)"
    by (metis set_append take_drop_1)
  have r: "set (remove1 i (running s)) = set (running s) - {i}"
    using d(1) by simp
  have "distinct (remove1 i (running s) @ take 1 (waitQueue s) @ drop 1 (waitQueue s))"
    using d disj by (simp only: take_drop_1) (auto simp: r)
  moreover have "set (remove1 i (running s) @ take 1 (waitQueue s)) \<union> set (drop 1 (waitQueue s))
        \<union> insert i (dom (settled s)) = {0..<n}"
    using cover assms(2) wq r by auto
  moreover have "(set (remove1 i (running s) @ take 1 (waitQueue s)) \<union> set (drop 1 (waitQueue s)))
        \<inter> insert i (dom (settled s)) = {}"
  proof -
    have "i \<notin> set (waitQueue s)" using disj assms(2) by auto
    then show ?thesis using sep wq r by auto
  qed
  ultimately show ?thesis
    by (simp add: tasksPartition_def finishTask_fields)
qed

lemma finish_balance:
  assumes "permitsBalance c s" and "i \<in> set (running s)"
  shows "permitsBalance c (finishTask env bp imageFiles out i s)"
proof -
  have pos: "0 < length (running s)"
    using assms(2) by (cases "running s") auto
  have h: "length (remove1 i (running s)) = length (running s) - 1"
    using assms(2) by (simp add: length_remove1)
  have len: "int (length (remove1 i (running s))) = int (length (running s)) - 1"
  proof (cases "length (running s)")
    case 0
    with pos show ?thesis by simp
  next
    case (Suc k)
    with h show ?thesis by simp
  qed
  show ?thesis
    using assms(1) len
    by (cases "waitQueue s") (auto simp: permitsBalance_def finishTask_fields)
qed

lemma finish_measure:
  assumes "i \<in> set (running s)"
  shows "length (running (finishTask env bp imageFiles out i s))
           + length (waitQueue (finishTask env bp imageFiles out i s))
         = length (running s) + length (waitQueue s) - 1"
proof -
  have len: "length (remove1 i (running s)) = length (running s) - 1"
    using assms by (simp add: length_remove1)
  have pos: "0 < length (running s)"
    using assms by (cases "running s") auto
  show ?thesis
    using len pos by (cases "waitQueue s") (auto simp: finishTask_fields)
qed

lemma finish_records:
  assumes rs: "recordsSettled cont thrown s" and tp: "tasksPartition n s"
    and i: "i \<in> set (running s)"
    and cont: "cont = continueOnError (cfgProcessing (configManager bp))"
    and thr: "thrown = thrownFor env bp imageFiles"
  shows "recordsSettled cont thrown (finishTask env bp imageFiles out i s)"
proof -
  let ?res = "fst (processImage env bp (world s) (imageFiles ! i) out)"
  let ?s' = "finishTask env bp imageFiles out i s"
  let ?new = "if status ?res = failed \<and> \<not> cont
              then [(?res, i),
                    (failedResult (imageFiles ! i)
                       (or_text (errorMessage ?res) ''Image processing failed''), i)]
              else [(?res, i)]"
  have rec: "recorded ?s' = recorded s @ ?new"
    and st: "settled ?s' = (settled s)(i \<mapsto> verdictOf cont
                (\<lambda>msg. thrown (length (recorded s) + 2) msg i) ?res)"
    unfolding cont thr by (simp_all add: finishTask_fields)
  from tp i have "i \<notin> dom (settled s)"
    by (auto simp: tasksPartition_def)
  with rs have fresh: "i \<notin> snd ` set (recorded s)"
    by (simp add: recordsSettled_def)
  have new_idx: "snd ` set ?new = {i}" by simp
  have p1: "snd ` set (recorded ?s') = dom (settled ?s')"
    using rs unfolding rec st by (simp only: set_append image_Un new_idx)
      (auto simp: recordsSettled_def)
  have p2: "cont \<longrightarrow> distinct (map snd (recorded ?s'))"
    using rs fresh unfolding rec by (auto simp: recordsSettled_def)
  have p3: "\<not> cont \<and> (\<exists>r k. (r, j) \<in> set (recorded ?s') \<and> status r = failed \<and>
                  e = thrown k (or_text (errorMessage r) ''Image processing failed'') j)"
    if h: "settled ?s' j = Some (Rejected e)" for j e
  proof (cases "j = i")
    case True
    with h have v: "verdictOf cont (\<lambda>msg. thrown (length (recorded s) + 2) msg i) ?res
                      = Rejected e"
      by (simp add: st)
    then have f: "status ?res = failed" and nc: "\<not> cont"
      and e: "e = thrown (length (recorded s) + 2)
                    (or_text (errorMessage ?res) ''Image processing failed'') i"
      by (auto simp: verdictOf_def split: if_splits)
    have m: "(?res, i) \<in> set (recorded ?s')" unfolding rec by simp
    have "\<exists>r k. (r, i) \<in> set (recorded ?s') \<and> status r = failed \<and>
                  e = thrown k (or_text (errorMessage r) ''Image processing failed'') i"
      by (rule exI [of _ ?res], rule exI [of _ "length (recorded s) + 2"], intro conjI)
         (rule m, rule f, rule e)
    with nc show ?thesis unfolding True by (rule conjI)
  next
    case False
    with h have "settled s j = Some (Rejected e)" by (simp add: st)
    with rs have old: "\<not> cont \<and> (\<exists>r k. (r, j) \<in> set (recorded s) \<and> status r = failed \<and>
                  e = thrown k (or_text (errorMessage r) ''Image processing failed'') j)"
      unfolding recordsSettled_def by blast
    then obtain r k where nc: "\<not> cont" and m: "(r, j) \<in> set (recorded s)"
      and f: "status r = failed"
      and e: "e = thrown k (or_text (errorMessage r) ''Image processing failed'') j"
      by (elim conjE exE) (rule that, assumption+)
    have m': "(r, j) \<in> set (recorded ?s')" unfolding rec using m by simp
    have "\<exists>r k. (r, j) \<in> set (recorded ?s') \<and> status r = failed \<and>
                  e = thrown k (or_text (errorMessage r) ''Image processing failed'') j"
      by (rule exI [of _ r], rule exI [of _ k], intro conjI) (rule m', rule f, rule e)
    with nc show ?thesis by (rule conjI)
  qed
  have p4: "status r \<noteq> failed"
    if h: "settled ?s' j = Some Fulfilled \<and> \<not> cont \<and> (r, j) \<in> set (recorded ?s')" for j r
  proof (cases "j = i")
    case True
    from h have hs: "settled ?s' j = Some Fulfilled" and nc: "\<not> cont"
      and hr: "(r, j) \<in> set (recorded ?s')" by blast+
    from hs True have v: "verdictOf cont (\<lambda>msg. thrown (length (recorded s) + 2) msg i) ?res
                            = Fulfilled"
      by (simp add: st)
    with nc have nf: "status ?res \<noteq> failed"
      by (auto simp: verdictOf_def split: if_splits)
    from hr True have "(r, i) \<in> set (recorded s) \<or> (r, i) \<in> set ?new"
      unfolding rec by simp
    moreover have "(r, i) \<notin> set (recorded s)"
      using fresh by force
    ultimately have "(r, i) \<in> set ?new" by blast
    with nf have "r = ?res" by (simp split: if_splits)
    with nf show ?thesis by simp
  next
    case False
    from h have hs: "settled ?s' j = Some Fulfilled" and nc: "\<not> cont"
      and hr: "(r, j) \<in> set (recorded ?s')" by blast+
    from hs False have a: "settled s j = Some Fulfilled" by (simp add: st)
    from hr False have b: "(r, j) \<in> set (recorded s)"
      unfolding rec by (auto split: if_splits)
    from rs have "\<forall>i r. settled s i = Some Fulfilled \<and> \<not> cont \<and> (r, i) \<in> set (recorded s)
                   \<longrightarrow> status r \<noteq> failed"
      unfolding recordsSettled_def by (elim conjE)
    with a nc b show ?thesis by blast
  qed
  show ?thesis
    unfolding recordsSettled_def
  proof (intro conjI allI impI)
    show "snd ` set (recorded ?s') = dom (settled ?s')" by (rule p1)
    show "distinct (map snd (recorded ?s'))" if cont using that p2 by (rule_tac mp)
    show "\<not> cont" if "settled ?s' j = Some (Rejected e)" for j e
      using p3 [OF that] by (rule conjunct1)
    show "\<exists>r k. (r, j) \<in> set (recorded ?s') \<and> status r = failed \<and>
              e = thrown k (or_text (errorMessage r) ''Image processing failed'') j"
      if "settled ?s' j = Some (Rejected e)" for j e
      using p3 [OF that] by (rule conjunct2)
    show "status r \<noteq> failed"
      if "settled ?s' j = Some Fulfilled \<and> \<not> cont \<and> (r, j) \<in> set (recorded ?s')" for j r
      using that by (rule p4)
  qed
qed

lemma drain_invariants:
  assumes "tasksPartition n s" and "permitsBalance c s" and "recordsSettled cont thrown s"
    and "cont = continueOnError (cfgProcessing (configManager bp))"
    and "1 \<le> c"
    and "length (running s) + length (waitQueue s) \<le> length schedule"
    and "thrown = thrownFor env bp imageFiles"
  shows "running (drain env bp imageFiles out schedule s) = [] \<and>
         waitQueue (drain env bp imageFiles out schedule s) = [] \<and>
         tasksPartition n (drain env bp imageFiles out schedule s) \<and>
         recordsSettled cont thrown (drain env bp imageFiles out schedule s)"
  using assms
proof (induction schedule arbitrary: s)
  case Nil
  then show ?case by simp
next
  case (Cons k ks)
  show ?case
  proof (cases "running s = []")
    case True
    with Cons.prems(2,5) have "waitQueue s = []"
      by (auto simp: permitsBalance_def)
    with True Cons.prems show ?thesis by simp
  next
    case False
    let ?i = "running s ! (k mod length (running s))"
    let ?s' = "finishTask env bp imageFiles out ?i s"
    have i: "?i \<in> set (running s)"
      using False by simp
    have m: "length (running ?s') + length (waitQueue ?s') \<le> length ks"
      using finish_measure [OF i, of env bp imageFiles out] Cons.prems(6) by simp
    have "running (drain env bp imageFiles out ks ?s') = [] \<and>
          waitQueue (drain env bp imageFiles out ks ?s') = [] \<and>
          tasksPartition n (drain env bp imageFiles out ks ?s') \<and>
          recordsSettled cont thrown (drain env bp imageFiles out ks ?s')"
      by (rule Cons.IH [OF finish_partition [OF Cons.prems(1) i]
            finish_balance [OF Cons.prems(2) i]
            finish_records [OF Cons.prems(3) Cons.prems(1) i Cons.prems(4) Cons.prems(7)]
            Cons.prems(4,5) m Cons.prems(7)])
    with False show ?thesis by simp
  qed
qed








lemma start_measure:
  "length (running (fold acquire [0..<n] (initialState w c)))
     + length (waitQueue (fold acquire [0..<n] (initialState w c))) = n"
proof -
  let ?s = "fold acquire [0..<n] (initialState w c)"
  have "length (running ?s @ waitQueue ?s) = card (set (running ?s @ waitQueue ?s))"
    using start_invariants(1) [of n w c] by (simp only: distinct_card)
  also have "set (running ?s @ waitQueue ?s) = {0..<n}"
    using start_invariants(2) [of n w c] by simp
  finally show ?thesis by simp
qed

lemma parallel_final_state:
  fixes env bp imageFiles out c schedule w
  defines "sF \<equiv> drain env bp imageFiles out schedule
                   (fold acquire [0..<length imageFiles] (initialState w c))"
    and "cont \<equiv> continueOnError (cfgProcessing (configManager bp))"
  assumes "1 \<le> c" and "length imageFiles \<le> length schedule"
  shows "running sF = []" and "waitQueue sF = []"
    and "dom (settled sF) = {0..<length imageFiles}"
    and "recordsSettled cont (thrownFor env bp imageFiles) sF"
proof -
  let ?s0 = "fold acquire [0..<length imageFiles] (initialState w c)"
  have m: "length (running ?s0) + length (waitQueue ?s0) \<le> length schedule"
    using assms(4) by (simp only: start_measure)
  have all: "running sF = [] \<and> waitQueue sF = [] \<and>
             tasksPartition (length imageFiles) sF \<and>
             recordsSettled cont (thrownFor env bp imageFiles) sF"
    unfolding sF_def
    by (rule drain_invariants [OF start_partition start_balance start_records _ assms(3) m])
       (simp_all add: cont_def)
  then show "running sF = []" and "waitQueue sF = []"
    and "recordsSettled cont (thrownFor env bp imageFiles) sF"
    by blast+
  from all show "dom (settled sF) = {0..<length imageFiles}"
    by (auto simp: tasksPartition_def)
qed

lemma parallel_outcome:
  fixes env bp imageFiles out c schedule w
  defines "sF \<equiv> drain env bp imageFiles out schedule
                   (fold acquire [0..<length imageFiles] (initialState w c))"
  assumes "running sF = []" and "waitQueue sF = []"
  shows "processImagesInParallel env bp imageFiles out c schedule w =
           Some (if \<not> continueOnError (cfgProcessing (configManager bp))
                 then (case rejections (length imageFiles) (settled sF) of
                         [] \<Rightarrow> Inr () | firstError # _ \<Rightarrow> Inl firstError)
                 else Inr (), sF)"
  using assms(2,3) unfolding sF_def
  by (simp add: processImagesInParallel_def Let_def split: list.split)


lemma notes_pipeline':
  "processImage scenarioEnv bp scenarioWorld ''in/notes.jpg'' ''out'' =
     (failedResult ''in/notes.jpg'' notesError, scenarioWorld)"
  unfolding notesError_def by (rule notes_pipeline)












text \<open>
  The scenario's two runs: with the default configuration, and with errors stopping the
  run and listeners registered.
\<close>

lemma default_recorded:
  "recorded (drain scenarioEnv defaultProcessor scenarioFiles ''out'' [0, 0]
     (fold acquire [0..<length scenarioFiles] (initialState scenarioWorld 4)))
   = [(failedResult ''in/notes.jpg'' notesError, 0), (redResult, Suc 0)]"
proof -
  have start: "fold acquire [0..<length scenarioFiles] (initialState scenarioWorld 4) =
     \<lparr> world = scenarioWorld, permits = 2, waitQueue = [], running = [0, Suc 0], recorded = [],
       reported = [], settled = Map.empty \<rparr>"
    by (simp add: scenarioFiles_def acquire_def initialState_def)
  have red: "fst (processImage scenarioEnv defaultProcessor scenarioWorld ''in/red.jpg'' ''out'')
               = redResult"
    by (rule red_pipeline) (simp_all add: default_fields)
  have files: "scenarioFiles ! 0 = ''in/notes.jpg''" "scenarioFiles ! Suc 0 = ''in/red.jpg''"
    by (simp_all add: scenarioFiles_def)
  show ?thesis
    unfolding start
    by (simp add: finishTask_fields files notes_pipeline' red default_fields
        failedResult_def redResult_def)
qed





section \<open>Properties of the final report\<close>

lemma filter_status_count:
  "length (filter (\<lambda>r. status r = success) rs) + length (filter (\<lambda>r. status r = failed) rs)
     + length (filter (\<lambda>r. status r = skipped) rs) = length rs"
proof (induction rs)
  case Nil
  show ?case by simp
next
  case (Cons r rs)
  then show ?case by (cases "status r") simp_all
qed

lemma report_shape:
  "totalImages (generateFinalReport t rp) = length (results (generateFinalReport t rp)) \<and>
   successfulConversions (generateFinalReport t rp) + failedConversions (generateFinalReport t rp)
     \<le> totalImages (generateFinalReport t rp) \<and>
   totalImages (generateFinalReport t rp)
     - (successfulConversions (generateFinalReport t rp)
        + failedConversions (generateFinalReport t rp))
     = length (filter (\<lambda>r. status r = skipped) (results (generateFinalReport t rp)))"
  using filter_status_count [of "collected rp"]
  by (simp add: generateFinalReport_def Let_def)

lemma processDirectory_report:
  assumes "processDirectory env sv bp schedule t w options = Some (Inr report, w')"
  shows "\<exists>rp. report = generateFinalReport t rp"
  using assms
  by (auto simp: processDirectory_def batchFailure_def emit_error_def complete_def Let_def
      split: sum.splits option.splits prod.splits if_splits)

text \<open>
  C8. In every report the reporter generates, \<open>totalImages\<close> is the length of the results
  list, \<open>successfulConversions + failedConversions\<close> is at most \<open>totalImages\<close>, and the
  remainder is the number of skipped items. Every report that \<open>processDirectory\<close> returns is
  such a report, for every configuration (hence every concurrency) and every order in
  which the pipelines return.
\<close>

theorem report_counts:
  "totalImages (generateFinalReport t rp) = length (results (generateFinalReport t rp)) \<and>
   successfulConversions (generateFinalReport t rp) + failedConversions (generateFinalReport t rp)
     \<le> totalImages (generateFinalReport t rp) \<and>
   totalImages (generateFinalReport t rp)
     - (successfulConversions (generateFinalReport t rp)
        + failedConversions (generateFinalReport t rp))
     = length (filter (\<lambda>r. status r = skipped) (results (generateFinalReport t rp))) \<and>
   (\<forall>env sv bp schedule w options report w'.
      processDirectory env sv bp schedule t w options = Some (Inr report, w') \<longrightarrow>
      totalImages report = length (results report) \<and>
      successfulConversions report + failedConversions report \<le> totalImages report)"
proof (intro conjI allI impI)
  show "totalImages (generateFinalReport t rp) = length (results (generateFinalReport t rp))"
    and "successfulConversions (generateFinalReport t rp)
           + failedConversions (generateFinalReport t rp)
         \<le> totalImages (generateFinalReport t rp)"
    and "totalImages (generateFinalReport t rp)
     - (successfulConversions (generateFinalReport t rp)
        + failedConversions (generateFinalReport t rp))
     = length (filter (\<lambda>r. status r = skipped) (results (generateFinalReport t rp)))"
    using report_shape [of t rp] by blast+
next
  fix env sv bp schedule w options report w'
  assume "processDirectory env sv bp schedule t w options = Some (Inr report, w')"
  then obtain rp' where r: "report = generateFinalReport t rp'"
    using processDirectory_report by blast
  show "totalImages report = length (results report)"
    and "successfulConversions report + failedConversions report \<le> totalImages report"
    unfolding r using report_shape [of t rp'] by blast+
qed

text \<open>
  The scenario's run with the default configuration: one file fails, one succeeds, and the
  report counts two images.
\<close>

theorem report_counts_witness:
  "map_option fst
     (processDirectory scenarioEnv scenarioServices defaultProcessor [0, 0] 1234 scenarioWorld
        scenarioOptions) = Some (Inr scenarioReport) \<and>
   totalImages scenarioReport = length (results scenarioReport) \<and>
   successfulConversions scenarioReport + failedConversions scenarioReport
     \<le> totalImages scenarioReport"
proof -
  define sF where "sF = drain scenarioEnv defaultProcessor scenarioFiles ''out'' [0, 0]
     (fold acquire [0..<length scenarioFiles] (initialState scenarioWorld 4))"
  define rpF where "rpF = reporterAfter defaultProcessor (length scenarioFiles) (recorded sF)"
  have c: "(1 :: int) \<le> 4" and l: "length scenarioFiles \<le> length [0 :: nat, 0]"
    by (simp_all add: scenarioFiles_def)
  have run: "processImagesInParallel scenarioEnv defaultProcessor scenarioFiles ''out'' 4 [0, 0]
               scenarioWorld = Some (Inr (), sF)"
    unfolding sF_def
    using parallel_outcome [OF parallel_final_state(1,2) [OF c l],
        of scenarioEnv defaultProcessor "''out''" scenarioWorld]
    by (simp add: default_fields)
  have rec: "recorded sF = [(failedResult ''in/notes.jpg'' notesError, 0), (redResult, Suc 0)]"
    unfolding sF_def by (rule default_recorded)
  have comp: "complete 1234 rpF = Inr (scenarioReport, rpF\<lparr> isActive := False \<rparr>)"
    unfolding rpF_def rec
    by (simp add: complete_def generateFinalReport_def updateProgress_def start_def
        reporterAfter_def default_fields newReporter_def scenarioReport_def failedResult_def
        redResult_def scenarioFiles_def Let_def)
  have opts: "sourceDirectory scenarioOptions = ''in''" "outputDirectory scenarioOptions = ''out''"
    by (simp_all add: scenarioOptions_def)
  have sv: "validateProcessingOptions scenarioServices scenarioWorld ''in'' ''out'' = Inr ()"
    "scanDirectory scenarioServices scenarioWorld ''in'' = Inr scenarioFiles"
    "createOutputDirectory scenarioServices scenarioWorld ''out'' = Inr scenarioWorld"
    "saveProcessingArtifacts scenarioServices (world sF) scenarioFiles ''out'' scenarioReport
       = world sF"
    by (simp_all add: scenarioServices_def scenarioFiles_def)
  have ne: "scenarioFiles \<noteq> []" by (simp add: scenarioFiles_def)
  have pd: "processDirectory scenarioEnv scenarioServices defaultProcessor [0, 0] 1234
              scenarioWorld scenarioOptions = Some (Inr scenarioReport, world sF)"
    unfolding processDirectory_def opts sv Let_def
    by (simp add: ne run default_fields rpF_def [symmetric] comp sv)
  note facts = report_counts [of 1234 newReporter, THEN conjunct2, THEN conjunct2, THEN conjunct2,
      THEN spec, THEN spec, THEN spec, THEN spec, THEN spec, THEN spec, THEN spec, THEN spec,
      THEN mp, OF pd]
  have first: "map_option fst
     (processDirectory scenarioEnv scenarioServices defaultProcessor [0, 0] 1234 scenarioWorld
        scenarioOptions) = Some (Inr scenarioReport)"
    unfolding pd by simp
  show ?thesis
    by (intro conjI) (rule first, rule facts [THEN conjunct1], rule facts [THEN conjunct2])
qed

section \<open>A run with an invalid concurrency\<close>

text \<open>
  With a concurrency of 0 or less, which the constructor accepts, no task ever obtains a
  permit: the parallel phase does not resolve, whatever the schedule.
\<close>

lemma nonpositive_start:
  assumes "c \<le> 0"
  shows "running (fold acquire [0..<k] (initialState w c)) = [] \<and>
         waitQueue (fold acquire [0..<k] (initialState w c)) = [0..<k] \<and>
         permits (fold acquire [0..<k] (initialState w c)) = c"
proof (induction k)
  case 0
  show ?case by (simp add: initialState_def)
next
  case (Suc k)
  then show ?case using assms by (simp add: acquire_fields)
qed

lemma drain_idle: "running s = [] \<Longrightarrow> drain env bp imageFiles out schedule s = s"
  by (cases schedule) simp_all

lemma nonpositive_concurrency_never_resolves:
  assumes "c \<le> 0" and "imageFiles \<noteq> []"
  shows "processImagesInParallel env bp imageFiles out c schedule w = None"
proof -
  let ?s0 = "fold acquire [0..<length imageFiles] (initialState w c)"
  from nonpositive_start [OF assms(1), of "length imageFiles" w]
  have r: "running ?s0 = []" and q: "waitQueue ?s0 = [0..<length imageFiles]"
    by simp_all
  have d: "drain env bp imageFiles out schedule ?s0 = ?s0"
    using r by (rule drain_idle)
  have "waitQueue ?s0 \<noteq> []"
    unfolding q using assms(2) by simp
  then show ?thesis
    unfolding processImagesInParallel_def Let_def d by simp
qed

end
